theory Spec2Isabelle
  imports Main "HOL-Library.Sublist"
begin

section \<open>Audit and signing reconciliation of the release controller\<close>

text \<open>
  A shallow embedding of \<^verbatim>\<open>cmd/release-controller/audit.go\<close>. Go strings are byte
  sequences (\<^typ>\<open>string\<close>), \<^verbatim>\<open>error\<close> values are represented by their message,
  a nil pointer or nil error is \<^term>\<open>None\<close>, \<^verbatim>\<open>time.Time\<close> is an instant in
  nanoseconds and \<^verbatim>\<open>time.Duration\<close> a number of nanoseconds. Calls of \<^verbatim>\<open>glog\<close> are
  not modelled.
\<close>

subsection \<open>The name of a verification job\<close>

text \<open>\<^verbatim>\<open>strings.SplitN(s, ":", 2)\<close>: split at the first colon, if there is one.\<close>

definition SplitN2 :: "string \<Rightarrow> string list" where
  "SplitN2 s =
     (if CHR '':'' \<in> set s
      then [takeWhile (\<lambda>c. c \<noteq> CHR '':'') s, tl (dropWhile (\<lambda>c. c \<noteq> CHR '':'') s)]
      else [s])"

text \<open>\<^verbatim>\<open>strings.Replace(name, ":", "-", -1)\<close>: every colon becomes a dash.\<close>

definition ReplaceColons :: "string \<Rightarrow> string" where
  "ReplaceColons s = map (\<lambda>c. if c = CHR '':'' then CHR ''-'' else c) s"

text \<open>The first statements of \<^verbatim>\<open>ensureAuditVerifyJob\<close>, which derive the job name from \<^verbatim>\<open>record.ID\<close>.\<close>

definition auditVerifyJobName :: "string \<Rightarrow> string" where
  "auditVerifyJobName recordID =
     (let name = recordID;
          parts = SplitN2 recordID;
          name = (if length parts = 2 then ''verify-'' @ parts ! 1 else name);
          name = ReplaceColons name;
          name = (if length name > 63 then take 63 name else name)
      in name)"


subsection \<open>Time\<close>

definition Second :: int where
  "Second = 1000000000"

definition Hour :: int where
  "Hour = 3600 * Second"

definition maxDuration :: int where
  "maxDuration = 2 ^ 63 - 1"

definition minDuration :: int where
  "minDuration = - (2 ^ 63)"

text \<open>\<^verbatim>\<open>t.Sub(u)\<close>: the difference, or the largest (smallest) duration when it does not fit.\<close>

definition time_Sub :: "int \<Rightarrow> int \<Rightarrow> int" where
  "time_Sub t u =
     (let d = t - u
      in if d > maxDuration then maxDuration else if d < minDuration then minDuration else d)"

subsection \<open>Data\<close>

type_synonym error = string

record AuditFailure =
  Reason :: string
  Message :: string

record AuditRecord =
  At :: int
  Name :: string
  ID :: string
  Location :: string
  Release :: string
  ImageStreamNamespace :: string
  ImageStreamName :: string
  Failure :: "AuditFailure option"

text \<open>
  The release description handed to this file. Only the fields that \<^verbatim>\<open>audit.go\<close> reads are
  kept: of a tag its name and annotations, of an image stream its namespace, name, resource
  version and \<^verbatim>\<open>Spec.Tags\<close>.
\<close>

record TagReference =
  tag_Name :: string
  tag_Annotations :: "string \<rightharpoonup> string"

record ImageStream =
  is_Namespace :: string
  is_Name :: string
  is_ResourceVersion :: string
  is_Tags :: "TagReference list"

record ReleaseConfig =
  cfg_Name :: string
  cfg_As :: string
  OverrideCLIImage :: string
  PullSecretName :: string

record ReleaseInfo =
  Source :: ImageStream
  Target :: ImageStream
  Config :: ReleaseConfig

text \<open>
  A batch job, with the fields this file reads or writes. A nil map is \<^term>\<open>None\<close>.
\<close>

record Container =
  c_Name :: string
  c_Image :: string
  c_Command :: "string list"

record Job =
  job_Name :: string
  job_Labels :: "(string \<rightharpoonup> string) option"
  job_Annotations :: "(string \<rightharpoonup> string) option"
  job_Containers :: "Container list"
  job_CompletionTime :: "int option"
  job_Active :: int

record ContainerStateTerminated =
  FinishedAt :: int
  term_Message :: string
  ExitCode :: int

record ContainerStatus =
  Terminated :: "ContainerStateTerminated option"

text \<open>The value a panic carries, and the outcome of a call that may panic.\<close>

datatype PanicValue = NilValue | PanicNilError | RuntimeError string | PanicWith string

datatype 'a result = Ok 'a | Panic PanicValue

text \<open>
  Declarations of the package and of Go's library that this file uses and that are defined
  elsewhere; they are parameters of the model.
\<close>

record Pkg =
  releaseConfigModeStable :: string
  releaseAnnotationSource :: string
  releaseAnnotationTarget :: string
  releaseAnnotationPhase :: string
  releaseAnnotationReleaseTag :: string
  releaseAnnotationJobPurpose :: string
  findImageIDForTag :: "ImageStream \<Rightarrow> string \<Rightarrow> string"
  findPublicImagePullSpec :: "ImageStream \<Rightarrow> string \<Rightarrow> string"
  newReleaseJobBase :: "string \<Rightarrow> string \<Rightarrow> string \<Rightarrow> Job \<times> string"
  jobIsComplete :: "Job \<Rightarrow> bool \<times> bool"
  sortSlice :: "(ContainerStatus \<Rightarrow> ContainerStatus \<Rightarrow> bool) \<Rightarrow> ContainerStatus list \<Rightarrow> ContainerStatus list"
  TrimSpace :: "string \<Rightarrow> string"

text \<open>
  What the collaborators answer during one call of an entry point: the release loader, the
  local \<^verbatim>\<open>oc\<close> command (its combined output and error), the job lister, the job client, the
  pod client, the signature store's upload, and the clock (\<^verbatim>\<open>time.Now()\<close> at the start of
  \<^verbatim>\<open>Sync\<close> or in \<^verbatim>\<open>SetFailure\<close>, and inside the \<open>i\<close>-th iteration of the loop of \<^verbatim>\<open>Sync\<close>).
\<close>

record Env =
  loadReleaseForSync :: "string \<Rightarrow> string \<Rightarrow> (ReleaseInfo option \<times> error option) result"
  execOcVerify :: "string \<Rightarrow> string \<times> error option"
  listJobsError :: "error option"
  createJobError :: "Job \<Rightarrow> error option"
  findJobContainerStatus :: "Job \<Rightarrow> string \<Rightarrow> string \<Rightarrow> ContainerStatus list \<times> error option"
  putSignatureError :: "string \<Rightarrow> string \<Rightarrow> error option"
  timeNow :: int
  timeNowInLoop :: "nat \<Rightarrow> int"

text \<open>The fields of \<^verbatim>\<open>Controller\<close> that decide the audit: the pinned CLI image and the signer.\<close>

record Controller =
  cliImageForAudit :: string
  signer :: "(string \<Rightarrow> string \<Rightarrow> string \<times> error option) option"

text \<open>Calls that leave the controller, in the order they are made.\<close>

datatype Event =
    LoadReleaseForSync string string
  | HasSignature string
  | ExecOcVerify string
  | ListJobs
  | EnsureJob string
  | NewReleaseJobBase string string string
  | CreateJob string
  | FindJobContainerStatus string
  | Sign string string
  | PutSignature string string
  | AddAfter string int
  | QueueAdd string

text \<open>
  The state the entry points work on: the tracker's records, the jobs of the job namespace,
  the signatures the store holds, and the calls made so far.
\<close>

record World =
  records :: "string \<rightharpoonup> AuditRecord"
  jobs :: "Job list"
  signatures :: "string \<rightharpoonup> string"
  trace :: "Event list"

definition emit :: "Event \<Rightarrow> World \<Rightarrow> World" where
  "emit e w = w\<lparr>trace := trace w @ [e]\<rparr>"

text \<open>The calls made between two states.\<close>

definition newEvents :: "World \<Rightarrow> World \<Rightarrow> Event list" where
  "newEvents w w' = drop (length (trace w)) (trace w')"

subsection \<open>AuditTracker\<close>

definition NewAuditTracker :: "string \<rightharpoonup> AuditRecord" where
  "NewAuditTracker = Map.empty"

definition SetFailure :: "int \<Rightarrow> string \<Rightarrow> string \<Rightarrow> (string \<rightharpoonup> AuditRecord) \<Rightarrow> (string \<rightharpoonup> AuditRecord)" where
  "SetFailure now name message recs =
     (case recs name of
        None \<Rightarrow> recs
      | Some existing \<Rightarrow>
          recs(name \<mapsto> existing\<lparr>At := now,
            Failure := Some \<lparr>Reason = ''VerificationFailed'', Message = message\<rparr>\<rparr>))"

text \<open>\<^verbatim>\<open>Get\<close> returns a copy of the record; values are copies already.\<close>

definition Get :: "(string \<rightharpoonup> AuditRecord) \<Rightarrow> string \<Rightarrow> AuditRecord option" where
  "Get recs name = recs name"

text \<open>The state of the first loop of \<^verbatim>\<open>Sync\<close>: the records, the set \<^verbatim>\<open>found\<close>, and the names added to the queue.\<close>

record SyncLoop =
  recs :: "string \<rightharpoonup> AuditRecord"
  found :: "string set"
  queued :: "string list"

text \<open>The three \<^verbatim>\<open>continue\<close> guards at the head of the loop body: the tags the loop goes on with.\<close>

definition recognizedTag :: "Pkg \<Rightarrow> TagReference \<Rightarrow> bool" where
  "recognizedTag p tag =
     (if tag_Annotations tag (releaseAnnotationSource p) = None then False
      else if length (tag_Name tag) = 0 then False
      else
        (let phase = (case tag_Annotations tag (releaseAnnotationPhase p) of None \<Rightarrow> [] | Some v \<Rightarrow> v)
         in if phase \<noteq> ''Accepted'' \<and> phase \<noteq> ''Ready'' \<and> phase \<noteq> ''Rejected'' then False
            else True))"

text \<open>One iteration of the loop over \<^verbatim>\<open>from.Spec.Tags\<close>; \<open>later\<close> is what \<^verbatim>\<open>time.Now()\<close> returns inside it.\<close>

definition syncTag :: "Pkg \<Rightarrow> ReleaseInfo \<Rightarrow> int \<Rightarrow> int \<Rightarrow> TagReference \<Rightarrow> SyncLoop \<Rightarrow> SyncLoop" where
  "syncTag p release now later tag st =
     (if \<not> recognizedTag p tag then st
      else
        (let from = Target release;
             st = st\<lparr>found := insert (tag_Name tag) (found st)\<rparr>;
             id = findImageIDForTag p from (tag_Name tag);
             location = findPublicImagePullSpec p from (tag_Name tag)
         in case recs st (tag_Name tag) of
              None \<Rightarrow>
                st\<lparr>recs := (recs st)(tag_Name tag \<mapsto>
                       \<lparr>At = now, Name = tag_Name tag, ID = id, Location = location,
                        Release = cfg_Name (Config release),
                        ImageStreamNamespace = is_Namespace (Source release),
                        ImageStreamName = is_Name (Source release),
                        Failure = None\<rparr>),
                   queued := queued st @ [tag_Name tag]\<rparr>
            | Some existing \<Rightarrow>
                (let changed = False;
                     changed = (if Location existing \<noteq> location then True else changed);
                     changed = (if ID existing \<noteq> id then True else changed);
                     expired = (time_Sub later (At existing) > 12 * Hour);
                     existing = (if expired then existing\<lparr>At := now, Failure := None\<rparr> else existing);
                     changed = (if expired then True else changed)
                 in st\<lparr>recs := (recs st)(tag_Name tag \<mapsto> existing),
                       queued := (if changed then queued st @ [tag_Name tag] else queued st)\<rparr>)))"

fun syncTags :: "Pkg \<Rightarrow> ReleaseInfo \<Rightarrow> int \<Rightarrow> (nat \<Rightarrow> int) \<Rightarrow> nat \<Rightarrow> TagReference list \<Rightarrow> SyncLoop \<Rightarrow> SyncLoop" where
  "syncTags p release now later i [] st = st"
| "syncTags p release now later i (tag # tags) st =
     syncTags p release now later (Suc i) tags (syncTag p release now (later i) tag st)"

text \<open>
  The second loop of \<^verbatim>\<open>Sync\<close>. It visits every entry once and deletes at most the entry it
  is visiting, so the order of the visits does not matter.
\<close>

definition removeOldTags :: "string \<Rightarrow> string set \<Rightarrow> (string \<rightharpoonup> AuditRecord) \<Rightarrow> (string \<rightharpoonup> AuditRecord)" where
  "removeOldTags releaseName fnd m =
     (\<lambda>k. case m k of
            None \<Rightarrow> None
          | Some v \<Rightarrow>
              if Release v \<noteq> releaseName then Some v
              else if k \<notin> fnd then None
              else Some v)"

text \<open>\<^verbatim>\<open>AuditTracker.Sync\<close>: the new records and the names added to the queue, in order.\<close>

definition Sync :: "Pkg \<Rightarrow> ReleaseInfo \<Rightarrow> int \<Rightarrow> (nat \<Rightarrow> int) \<Rightarrow> (string \<rightharpoonup> AuditRecord) \<Rightarrow> (string \<rightharpoonup> AuditRecord) \<times> string list" where
  "Sync p release now later m =
     (if cfg_As (Config release) \<noteq> releaseConfigModeStable p then (m, [])
      else
        (let st = syncTags p release now later 0 (is_Tags (Target release))
                    \<lparr>recs = m, found = {}, queued = []\<rparr>
         in (removeOldTags (cfg_Name (Config release)) (found st) (recs st), queued st)))"

text \<open>What the cooldown branch of the loop makes of a record.\<close>

definition refreshed :: "int \<Rightarrow> AuditRecord \<Rightarrow> AuditRecord" where
  "refreshed now r = r\<lparr>At := now, Failure := None\<rparr>"

text \<open>The invariant of the tracker's map: every record is stored under its own tag name.\<close>

definition keyedByName :: "(string \<rightharpoonup> AuditRecord) \<Rightarrow> bool" where
  "keyedByName m \<longleftrightarrow> (\<forall>k r. m k = Some r \<longrightarrow> Name r = k)"

subsection \<open>Verification jobs\<close>

text \<open>\<^verbatim>\<open>auditVerifyJobSelector\<close>: the jobs labelled with the purpose \<^verbatim>\<open>audit\<close>.\<close>

definition auditVerifyJobSelector :: "Pkg \<Rightarrow> Job \<Rightarrow> bool" where
  "auditVerifyJobSelector p job =
     (case job_Labels job of
        None \<Rightarrow> False
      | Some l \<Rightarrow> l (releaseAnnotationJobPurpose p) = Some ''audit'')"

definition countAuditVerifyJobs :: "Pkg \<Rightarrow> Env \<Rightarrow> World \<Rightarrow> World \<times> nat \<times> bool" where
  "countAuditVerifyJobs p env w =
     (let w = emit ListJobs w
      in case listJobsError env of
           Some err \<Rightarrow> (w, 0, False)
         | None \<Rightarrow>
             (let result = filter (auditVerifyJobSelector p) (jobs w)
              in (w, length (filter (\<lambda>job. job_CompletionTime job = None) result), True)))"

text \<open>
  Modelled from the spec: \<^verbatim>\<open>Controller.ensureJob\<close> is not in this file. The job control plane
  offers "create-or-get job by name (idempotent ensure)": a job of that name is returned as it
  is; otherwise the job that \<open>createFn\<close> builds is created, which the job client may refuse.
\<close>

definition ensureJob :: "Env \<Rightarrow> string \<Rightarrow> (World \<Rightarrow> World \<times> (error + Job) result) \<Rightarrow> World \<Rightarrow> World \<times> (Job option \<times> error option) result" where
  "ensureJob env name createFn w =
     (let w = emit (EnsureJob name) w
      in case find (\<lambda>job. job_Name job = name) (jobs w) of
           Some job \<Rightarrow> (w, Ok (Some job, None))
         | None \<Rightarrow>
             (case createFn w of
                (w, Panic v) \<Rightarrow> (w, Panic v)
              | (w, Ok (Inl err)) \<Rightarrow> (w, Ok (None, Some err))
              | (w, Ok (Inr toCreate)) \<Rightarrow>
                  (let w = emit (CreateJob (job_Name toCreate)) w
                   in case createJobError env toCreate of
                        Some err \<Rightarrow> (w, Ok (None, Some err))
                      | None \<Rightarrow> (w\<lparr>jobs := jobs w @ [toCreate]\<rparr>, Ok (Some toCreate, None)))))"

text \<open>The script of the verify container, after the prefix: a raw string with tabs and newlines.\<close>

definition verifyScript :: string where
  "verifyScript =
     [CHR 0x0A, CHR 0x09, CHR 0x09, CHR 0x09] @ ''oc adm release info --verify '' @
     [CHR 0x22] @ ''$1'' @ [CHR 0x22] @ [CHR 0x0A, CHR 0x09, CHR 0x09, CHR 0x09]"

text \<open>
  The closure that \<^verbatim>\<open>ensureAuditVerifyJob\<close> hands to \<^verbatim>\<open>ensureJob\<close>. Indexing an empty
  container list and writing to a nil annotation map panic.
\<close>

definition verifyJobCreateFn :: "Pkg \<Rightarrow> ReleaseInfo \<Rightarrow> AuditRecord \<Rightarrow> string \<Rightarrow> World \<Rightarrow> World \<times> (error + Job) result" where
  "verifyJobCreateFn p release record name w =
     (let cliImage = OverrideCLIImage (Config release);
          w = emit (NewReleaseJobBase name cliImage (PullSecretName (Config release))) w;
          (job, prefix) = newReleaseJobBase p name cliImage (PullSecretName (Config release))
      in case job_Containers job of
           [] \<Rightarrow> (w, Panic (RuntimeError ''index out of range [0] with length 0''))
         | c0 # cs \<Rightarrow>
             (let job = job\<lparr>job_Containers :=
                          c0\<lparr>c_Name := ''verify'',
                             c_Command := [''/bin/bash'', ''-c'', prefix @ verifyScript, [], Location record]\<rparr> # cs\<rparr>;
                  job = (if job_Labels job = None then job\<lparr>job_Labels := Some Map.empty\<rparr> else job);
                  job = job\<lparr>job_Labels :=
                          map_option (\<lambda>l. l(releaseAnnotationJobPurpose p \<mapsto> ''audit'')) (job_Labels job)\<rparr>
              in case job_Annotations job of
                   None \<Rightarrow> (w, Panic (RuntimeError ''assignment to entry in nil map''))
                 | Some a \<Rightarrow>
                     (w, Ok (Inr (job\<lparr>job_Annotations := Some (a
                        (releaseAnnotationSource p \<mapsto>
                           is_Namespace (Source release) @ ''/'' @ is_Name (Source release),
                         releaseAnnotationTarget p \<mapsto>
                           is_Namespace (Target release) @ ''/'' @ is_Name (Target release),
                         releaseAnnotationReleaseTag p \<mapsto> Name record,
                         releaseAnnotationJobPurpose p \<mapsto> ''audit''))\<rparr>)))))"

definition ensureAuditVerifyJob :: "Pkg \<Rightarrow> Env \<Rightarrow> ReleaseInfo \<Rightarrow> AuditRecord \<Rightarrow> World \<Rightarrow> World \<times> (Job option \<times> error option) result" where
  "ensureAuditVerifyJob p env release record w =
     (let name = auditVerifyJobName (ID record)
      in ensureJob env name (verifyJobCreateFn p release record name) w)"

text \<open>The comparison handed to \<^verbatim>\<open>sort.Slice\<close>, on the elements at \<open>i\<close> and \<open>j\<close>.\<close>

definition statusLess :: "ContainerStatus \<Rightarrow> ContainerStatus \<Rightarrow> bool" where
  "statusLess si sj =
     (let a = sj; b = si
      in case (Terminated a, Terminated b) of
           (Some ta, Some tb) \<Rightarrow> FinishedAt ta < FinishedAt tb
         | (None, _) \<Rightarrow> True
         | (Some ta, None) \<Rightarrow> False)"

fun firstTerminated :: "bool \<Rightarrow> ContainerStatus list \<Rightarrow> string \<times> int \<times> bool" where
  "firstTerminated onlySuccess [] = ([], 0, False)"
| "firstTerminated onlySuccess (status # statuses) =
     (case Terminated status of
        None \<Rightarrow> firstTerminated onlySuccess statuses
      | Some t \<Rightarrow>
          if onlySuccess \<and> ExitCode t \<noteq> 0 then firstTerminated onlySuccess statuses
          else (term_Message t, ExitCode t, True))"

definition ensureJobTerminationMessageRetrieved :: "Pkg \<Rightarrow> Env \<Rightarrow> Job \<Rightarrow> string \<Rightarrow> string \<Rightarrow> bool \<Rightarrow> World \<Rightarrow> World \<times> string \<times> int \<times> bool" where
  "ensureJobTerminationMessageRetrieved p env job podFieldSelector containerName onlySuccess w =
     (if job_Active job = 0 then (w, [], 0, False)
      else
        (let w = emit (FindJobContainerStatus (job_Name job)) w
         in case findJobContainerStatus env job podFieldSelector containerName of
              (statuses, Some err) \<Rightarrow> (w, [], 0, False)
            | (statuses, None) \<Rightarrow> (w, firstTerminated onlySuccess (sortSlice p statusLess statuses))))"

subsection \<open>The reconciler\<close>

text \<open>\<^verbatim>\<open>%v\<close> of an error value.\<close>

definition fmt_v :: "error option \<Rightarrow> string" where
  "fmt_v err = (case err of None \<Rightarrow> ''<nil>'' | Some msg \<Rightarrow> msg)"

text \<open>
  The two verification backends. Each returns \<^term>\<open>Some\<close> of the reconciler's result when
  the reconciler returns from inside the branch, and \<^term>\<open>None\<close> when control reaches the
  signing switch.
\<close>

definition verifyLocal :: "Pkg \<Rightarrow> Env \<Rightarrow> AuditRecord \<Rightarrow> World \<Rightarrow> World \<times> (error option) result option" where
  "verifyLocal p env record w =
     (let w = emit (ExecOcVerify (Location record)) w
      in case execOcVerify env (Location record) of
           (out, Some err) \<Rightarrow>
             (let failureMsg = ''Unable to verify release:'' @ [CHR 0x0A] @ TrimSpace p out
              in (w\<lparr>records := SetFailure (timeNow env) (Name record) failureMsg (records w)\<rparr>,
                  Some (Ok None)))
         | (out, None) \<Rightarrow> (w, None))"

definition verifyClusterJob :: "Pkg \<Rightarrow> Env \<Rightarrow> string \<Rightarrow> ReleaseInfo \<Rightarrow> AuditRecord \<Rightarrow> World \<Rightarrow> World \<times> (error option) result option" where
  "verifyClusterJob p env releaseName release record w =
     (case countAuditVerifyJobs p env w of
        (w, count, ok) \<Rightarrow>
          if \<not> ok \<or> count > 2 then (emit (AddAfter releaseName (10 * Second)) w, Some (Ok None))
          else
            (case ensureAuditVerifyJob p env release record w of
               (w, Panic v) \<Rightarrow> (w, Some (Panic v))
             | (w, Ok (Some job, None)) \<Rightarrow>
                 (case jobIsComplete p job of
                    (success, complete) \<Rightarrow>
                      if \<not> complete then (emit (AddAfter releaseName (10 * Second)) w, Some (Ok None))
                      else if \<not> success then
                        (case ensureJobTerminationMessageRetrieved p env job
                                ''status.phase=Failed'' ''verify'' False w of
                           (w, message, code, got) \<Rightarrow>
                             (let failureMsg = ''Unable to verify release for unknown reason'';
                                  failureMsg =
                                    (if length message > 0
                                     then ''Unable to verify release:'' @ [CHR 0x0A, CHR 0x0A] @ message
                                     else failureMsg)
                              in (w\<lparr>records := SetFailure (timeNow env) (Name record) failureMsg (records w)\<rparr>,
                                  Some (Ok None))))
                      else (w, None))
             | (w, Ok (job, err)) \<Rightarrow>
                 (w, Some (Ok (Some (''unable to verify release before signing: '' @ fmt_v err))))))"

text \<open>
  Modelled from the spec: the implementations of the interface \<^verbatim>\<open>AuditStore\<close> are not in this
  file. The store offers \<^verbatim>\<open>PutSignature(digest, signatureBytes) -> error\<close> and
  \<^verbatim>\<open>HasSignature(digest) -> bool\<close>: it holds a signature for a digest from the moment an
  upload for that digest returns without error, and an upload that fails leaves it as it was.
\<close>

definition AuditStore_HasSignature :: "World \<Rightarrow> string \<Rightarrow> bool" where
  "AuditStore_HasSignature w dgst \<longleftrightarrow> signatures w dgst \<noteq> None"

definition AuditStore_PutSignature :: "Env \<Rightarrow> string \<Rightarrow> string \<Rightarrow> World \<Rightarrow> World \<times> error option" where
  "AuditStore_PutSignature env dgst signature w =
     (case putSignatureError env dgst signature of
        Some err \<Rightarrow> (w, Some err)
      | None \<Rightarrow> (w\<lparr>signatures := (signatures w)(dgst \<mapsto> signature)\<rparr>, None))"

text \<open>The signing switch at the end of \<^verbatim>\<open>syncAuditTag\<close>.\<close>

definition signAndUpload :: "Controller \<Rightarrow> Env \<Rightarrow> AuditRecord \<Rightarrow> World \<Rightarrow> World \<times> (error option) result" where
  "signAndUpload c env record w =
     (case signer c of
        None \<Rightarrow> (w, Ok None)
      | Some signFn \<Rightarrow>
          (let w = emit (Sign (ID record) (Location record)) w
           in case signFn (ID record) (Location record) of
                (sig, Some err) \<Rightarrow> (w, Ok (Some (''unable to sign release: '' @ err)))
              | (sig, None) \<Rightarrow>
                  (let w = emit (PutSignature (ID record) sig) w
                   in case AuditStore_PutSignature env (ID record) sig w of
                        (w, Some err) \<Rightarrow> (w, Ok (Some (''unable to upload release signature: '' @ err)))
                      | (w, None) \<Rightarrow> (w, Ok None))))"

text \<open>\<^verbatim>\<open>syncAuditTag\<close> from the choice of the CLI image on.\<close>

definition verifyAndSign :: "Pkg \<Rightarrow> Controller \<Rightarrow> Env \<Rightarrow> string \<Rightarrow> ReleaseInfo \<Rightarrow> AuditRecord \<Rightarrow> World \<Rightarrow> World \<times> (error option) result" where
  "verifyAndSign p c env releaseName release record w =
     (let image = cliImageForAudit c;
          image = (if length image = 0 then OverrideCLIImage (Config release) else image)
      in if length image = 0 then (w, Ok None)
         else
           (case (if image = ''local'' then verifyLocal p env record w
                  else verifyClusterJob p env releaseName release record w) of
              (w, Some r) \<Rightarrow> (w, r)
            | (w, None) \<Rightarrow> signAndUpload c env record w))"

definition syncAuditTag :: "Pkg \<Rightarrow> Controller \<Rightarrow> Env \<Rightarrow> string \<Rightarrow> World \<Rightarrow> World \<times> (error option) result" where
  "syncAuditTag p c env releaseName w =
     (case Get (records w) releaseName of
        None \<Rightarrow> (w, Ok None)
      | Some record \<Rightarrow>
          if Failure record \<noteq> None then (w, Ok None)
          else if length (ID record) = 0 then
            (let msg = ''Release '' @ Name record @ '' has no digest and cannot be verified''
             in (w\<lparr>records := SetFailure (timeNow env) (Name record) msg (records w)\<rparr>, Ok None))
          else
            (let w = emit (LoadReleaseForSync (ImageStreamNamespace record) (ImageStreamName record)) w
             in case loadReleaseForSync env (ImageStreamNamespace record) (ImageStreamName record) of
                  Panic v \<Rightarrow> (w, Panic v)
                | Ok (Some release, None) \<Rightarrow>
                    (let w = emit (HasSignature (ID record)) w
                     in if AuditStore_HasSignature w (ID record) then (w, Ok None)
                        else verifyAndSign p c env releaseName release record w)
                | Ok (release, err) \<Rightarrow> (w, Ok err)))"

subsection \<open>The per-release entry point\<close>

text \<open>The body of \<^verbatim>\<open>syncAudit\<close>, without the deferred function.\<close>

definition syncAuditBody :: "Pkg \<Rightarrow> Env \<Rightarrow> string \<times> string \<Rightarrow> World \<Rightarrow> World \<times> (error option) result" where
  "syncAuditBody p env key w =
     (let w = emit (LoadReleaseForSync (fst key) (snd key)) w
      in case loadReleaseForSync env (fst key) (snd key) of
           Panic v \<Rightarrow> (w, Panic v)
         | Ok (Some release, None) \<Rightarrow>
             (case Sync p release (timeNow env) (timeNowInLoop env) (records w) of
                (m, names) \<Rightarrow> (w\<lparr>records := m, trace := trace w @ map QueueAdd names\<rparr>, Ok None))
         | Ok (release, err) \<Rightarrow> (w, Ok err))"

text \<open>
  \<^verbatim>\<open>recover()\<close> in a deferred function returns the value of the panic in flight, and nil when
  the function is returning normally. \<^verbatim>\<open>panic(v)\<close> then starts a panic with that value; a nil
  value is kept when \<open>panicnil\<close> is set (Go before 1.21, or \<^verbatim>\<open>GODEBUG=panicnil=1\<close>) and
  becomes a \<^verbatim>\<open>*runtime.PanicNilError\<close> otherwise.
\<close>

definition recover :: "'a result \<Rightarrow> PanicValue" where
  "recover r = (case r of Panic v \<Rightarrow> v | Ok x \<Rightarrow> NilValue)"

definition go_panic :: "bool \<Rightarrow> PanicValue \<Rightarrow> 'a result" where
  "go_panic panicnil v = Panic (if v = NilValue \<and> \<not> panicnil then PanicNilError else v)"

text \<open>\<^verbatim>\<open>syncAudit\<close>: the body, then the deferred function, whose panic replaces the body's outcome.\<close>

definition syncAudit :: "bool \<Rightarrow> Pkg \<Rightarrow> Env \<Rightarrow> string \<times> string \<Rightarrow> World \<Rightarrow> World \<times> (error option) result" where
  "syncAudit panicnil p env key w =
     (case syncAuditBody p env key w of
        (w, r) \<Rightarrow> (let err = recover r in (w, go_panic panicnil err)))"

subsection \<open>Runs of the controller\<close>

text \<open>The calls that sign or upload for a digest.\<close>

fun signingOf :: "string \<Rightarrow> Event \<Rightarrow> bool" where
  "signingOf d (Sign x location) = (x = d)"
| "signingOf d (PutSignature x sig) = (x = d)"
| "signingOf d e = False"

text \<open>
  The workers call \<^verbatim>\<open>syncAuditTag\<close> for a tag name and the body of \<^verbatim>\<open>syncAudit\<close> for a
  release key, one call after the other, each with its own answers of the collaborators.
\<close>

datatype Step = ReconcileTag Controller Env string | SyncRelease Env "string \<times> string"

fun run :: "Pkg \<Rightarrow> Step list \<Rightarrow> World \<Rightarrow> World" where
  "run p [] w = w"
| "run p (ReconcileTag c env name # steps) w = run p steps (fst (syncAuditTag p c env name w))"
| "run p (SyncRelease env key # steps) w = run p steps (fst (syncAuditBody p env key w))"

text \<open>A step that leaves the store alone and neither signs nor uploads for the digest \<open>d\<close>.\<close>

definition quiet :: "string \<Rightarrow> World \<Rightarrow> World \<Rightarrow> bool" where
  "quiet d w w' \<longleftrightarrow>
     signatures w' = signatures w \<and>
     filter (signingOf d) (trace w') = filter (signingOf d) (trace w)"

text \<open>A step that only appends calls satisfying \<open>P\<close> to the trace.\<close>

definition callsOnly :: "(Event \<Rightarrow> bool) \<Rightarrow> World \<Rightarrow> World \<Rightarrow> bool" where
  "callsOnly P w w' \<longleftrightarrow>
     trace w' = trace w @ newEvents w w' \<and> list_all P (newEvents w w')"

text \<open>
  The calls a verification of the record \<open>r\<close> of the tag \<open>n\<close> against the release may make,
  with their arguments, and the calls of the signing switch.
\<close>

fun verificationCall :: "string \<Rightarrow> ReleaseInfo \<Rightarrow> AuditRecord \<Rightarrow> Event \<Rightarrow> bool" where
  "verificationCall n release r (ExecOcVerify location) = (location = Location r)"
| "verificationCall n release r ListJobs = True"
| "verificationCall n release r (EnsureJob name) = (name = auditVerifyJobName (ID r))"
| "verificationCall n release r (NewReleaseJobBase name cliImage pullSecret) =
     (name = auditVerifyJobName (ID r) \<and> cliImage = OverrideCLIImage (Config release) \<and>
      pullSecret = PullSecretName (Config release))"
| "verificationCall n release r (CreateJob name) = True"
| "verificationCall n release r (FindJobContainerStatus name) = True"
| "verificationCall n release r (AddAfter name delay) = (name = n \<and> delay = 10 * Second)"
| "verificationCall n release r e = False"

fun signingCall :: "AuditRecord \<Rightarrow> Event \<Rightarrow> bool" where
  "signingCall r (Sign d location) = (d = ID r \<and> location = Location r)"
| "signingCall r (PutSignature d sig) = (d = ID r)"
| "signingCall r e = False"

text \<open>The number that \<^verbatim>\<open>countAuditVerifyJobs\<close> returns when the listing succeeds.\<close>

definition unfinishedAuditJobs :: "Pkg \<Rightarrow> Job list \<Rightarrow> nat" where
  "unfinishedAuditJobs p js =
     length (filter (\<lambda>job. job_CompletionTime job = None) (filter (auditVerifyJobSelector p) js))"

subsection \<open>Concrete inputs\<close>

text \<open>
  A package instance, releases and records to evaluate the definitions on: the digest and the
  pull spec are those of the tag in the image stream, a job base has one container and an empty
  annotation map, and a job counts as complete and successful once it has a completion time.
  The sort is the insertion sort that \<^verbatim>\<open>sort.Slice\<close> runs on short slices: an element moves
  left while it is less than its left neighbour (\<open>insertBy\<close> works on the sorted part in reverse).
  \<open>TrimSpace\<close> strips the ASCII white space (tab, line feed, vertical tab, form feed, carriage
  return, space), which is what \<^verbatim>\<open>strings.TrimSpace\<close> does on ASCII text.
\<close>

fun insertBy :: "('a \<Rightarrow> 'a \<Rightarrow> bool) \<Rightarrow> 'a \<Rightarrow> 'a list \<Rightarrow> 'a list" where
  "insertBy lt x [] = [x]"
| "insertBy lt x (y # ys) = (if lt x y then y # insertBy lt x ys else x # y # ys)"

definition asciiSpace :: "char \<Rightarrow> bool" where
  "asciiSpace ch \<longleftrightarrow> ch \<in> {CHR 0x09, CHR 0x0A, CHR 0x0B, CHR 0x0C, CHR 0x0D, CHR 0x20}"

definition examplePkg :: Pkg where
  "examplePkg =
     \<lparr>releaseConfigModeStable = ''Stable'',
      releaseAnnotationSource = ''release.openshift.io/source'',
      releaseAnnotationTarget = ''release.openshift.io/target'',
      releaseAnnotationPhase = ''release.openshift.io/phase'',
      releaseAnnotationReleaseTag = ''release.openshift.io/releaseTag'',
      releaseAnnotationJobPurpose = ''release.openshift.io/purpose'',
      findImageIDForTag = (\<lambda>from name. ''sha256:abcd''),
      findPublicImagePullSpec = (\<lambda>from name. ''registry.example/repo@sha256:abcd''),
      newReleaseJobBase = (\<lambda>name cliImage pullSecret.
        (\<lparr>job_Name = name, job_Labels = None, job_Annotations = Some Map.empty,
          job_Containers = [\<lparr>c_Name = ''build'', c_Image = cliImage, c_Command = []\<rparr>],
          job_CompletionTime = None, job_Active = 0\<rparr>, ''set -e'')),
      jobIsComplete = (\<lambda>job. (job_CompletionTime job \<noteq> None, job_CompletionTime job \<noteq> None)),
      sortSlice = (\<lambda>lt xs. rev (foldl (\<lambda>acc x. insertBy lt x acc) [] xs)),
      TrimSpace = (\<lambda>s. rev (dropWhile asciiSpace (rev (dropWhile asciiSpace s))))\<rparr>"


definition exampleTag :: "string \<Rightarrow> TagReference" where
  "exampleTag name =
     \<lparr>tag_Name = name,
      tag_Annotations = [''release.openshift.io/source'' \<mapsto> ''ocp/4.10'',
                         ''release.openshift.io/phase'' \<mapsto> ''Accepted'']\<rparr>"

definition exampleRelease :: "string \<Rightarrow> string \<Rightarrow> string list \<Rightarrow> ReleaseInfo" where
  "exampleRelease name override tagNames =
     \<lparr>Source = \<lparr>is_Namespace = ''ocp'', is_Name = name, is_ResourceVersion = ''1'', is_Tags = []\<rparr>,
      Target = \<lparr>is_Namespace = ''ocp'', is_Name = ''release'', is_ResourceVersion = ''1'',
                is_Tags = map exampleTag tagNames\<rparr>,
      Config = \<lparr>cfg_Name = name, cfg_As = ''Stable'', OverrideCLIImage = override,
                PullSecretName = ''pull-secret''\<rparr>\<rparr>"

definition exampleRecord :: "string \<Rightarrow> string \<Rightarrow> string \<Rightarrow> AuditFailure option \<Rightarrow> AuditRecord" where
  "exampleRecord name digest owner failure =
     \<lparr>At = 0, Name = name, ID = digest, Location = ''registry.example/repo@sha256:abcd'',
      Release = owner, ImageStreamNamespace = ''ocp'', ImageStreamName = owner,
      Failure = failure\<rparr>"

definition exampleFailure :: AuditFailure where
  "exampleFailure = \<lparr>Reason = ''VerificationFailed'', Message = ''Unable to verify release''\<rparr>"

definition exampleEnv :: "ReleaseInfo option \<Rightarrow> error option \<Rightarrow> Env" where
  "exampleEnv release listErr =
     \<lparr>loadReleaseForSync = (\<lambda>ns name. Ok (release, None)),
      execOcVerify = (\<lambda>location. ([], None)),
      listJobsError = listErr,
      createJobError = (\<lambda>job. None),
      findJobContainerStatus = (\<lambda>job selector container. ([], None)),
      putSignatureError = (\<lambda>digest sig. None),
      timeNow = 13 * Hour,
      timeNowInLoop = (\<lambda>i. 13 * Hour)\<rparr>"

definition exampleController :: "string \<Rightarrow> Controller" where
  "exampleController pinned =
     \<lparr>cliImageForAudit = pinned, signer = Some (\<lambda>digest location. (''signature'', None))\<rparr>"

definition exampleJob :: "string \<Rightarrow> int option \<Rightarrow> Job" where
  "exampleJob name completed =
     \<lparr>job_Name = name, job_Labels = Some [''release.openshift.io/purpose'' \<mapsto> ''audit''],
      job_Annotations = Some Map.empty, job_Containers = [],
      job_CompletionTime = completed, job_Active = 0\<rparr>"

definition exampleWorld :: "(string \<rightharpoonup> AuditRecord) \<Rightarrow> Job list \<Rightarrow> World" where
  "exampleWorld m js = \<lparr>records = m, jobs = js, signatures = Map.empty, trace = []\<rparr>"

text \<open>
  The tag of the scenarios: \<^verbatim>\<open>4.10.0\<close> of the release \<^verbatim>\<open>4.10-stable\<close>, with the digest
  \<^verbatim>\<open>sha256:abcd\<close>, tracked and not failed, in a world with the given jobs and no signature.
\<close>

definition record410 :: AuditRecord where
  "record410 = exampleRecord ''4.10.0'' ''sha256:abcd'' ''4.10-stable'' None"

definition release410 :: "string \<Rightarrow> ReleaseInfo" where
  "release410 override = exampleRelease ''4.10-stable'' override [''4.10.0'']"

definition world410 :: "Job list \<Rightarrow> World" where
  "world410 js = exampleWorld [''4.10.0'' \<mapsto> record410] js"

text \<open>The world after the first reconciliation of the tag with the local backend: verified, signed and uploaded.\<close>

definition signed410 :: World where
  "signed410 =
     fst (syncAuditTag examplePkg (exampleController ''local'')
            (exampleEnv (Some (release410 [])) None) ''4.10.0'' (world410 []))"

subsection \<open>Properties of the job name\<close>

lemma SplitN2_length: "length (SplitN2 s) = (if CHR '':'' \<in> set s then 2 else 1)"
  by (simp add: SplitN2_def)

lemma ReplaceColons_no_colon: "CHR '':'' \<notin> set (ReplaceColons s)"
  by (auto simp: ReplaceColons_def)

lemma ReplaceColons_append: "ReplaceColons (a @ b) = ReplaceColons a @ ReplaceColons b"
  by (simp add: ReplaceColons_def)

lemma ReplaceColons_id: "CHR '':'' \<notin> set s \<Longrightarrow> ReplaceColons s = s"
  by (induction s) (auto simp: ReplaceColons_def)

lemma auditVerifyJobName_colon:
  "CHR '':'' \<in> set d \<Longrightarrow>
   auditVerifyJobName d =
     take 63 (''verify-'' @ ReplaceColons (tl (dropWhile (\<lambda>c. c \<noteq> CHR '':'') d)))"
  by (simp add: auditVerifyJobName_def SplitN2_def Let_def ReplaceColons_def)

lemma auditVerifyJobName_plain:
  "CHR '':'' \<notin> set d \<Longrightarrow> auditVerifyJobName d = take 63 d"
  by (simp add: auditVerifyJobName_def SplitN2_def Let_def ReplaceColons_id)

text \<open>
  C8 (the claim as stated fails): the digest \<^verbatim>\<open>abcd\<close> has no colon, so the guard
  \<^verbatim>\<open>len(parts) == 2\<close> is false and the job name is the digest itself, with no
  \<^verbatim>\<open>verify-\<close> prefix.
\<close>

theorem C8_job_name_prefix_counterexample:
  "auditVerifyJobName ''abcd'' = ''abcd'' \<and> \<not> prefix ''verify-'' (auditVerifyJobName ''abcd'')"
  by (simp add: auditVerifyJobName_def SplitN2_def ReplaceColons_def)

text \<open>
  C8 (amended): the job name is a function of the digest alone. It never contains a colon and
  never has more than 63 bytes. For a digest with a colon it is \<^verbatim>\<open>verify-\<close> followed by
  what comes after the first colon, with the remaining colons replaced by dashes, cut to 63
  bytes; for a digest without a colon it is the digest itself cut to 63 bytes, with no prefix
  added.
\<close>

theorem C8_job_name:
  "CHR '':'' \<notin> set (auditVerifyJobName d) \<and>
   length (auditVerifyJobName d) \<le> 63 \<and>
   auditVerifyJobName d =
     (if CHR '':'' \<in> set d
      then take 63 (''verify-'' @ ReplaceColons (tl (dropWhile (\<lambda>c. c \<noteq> CHR '':'') d)))
      else take 63 d) \<and>
   (if CHR '':'' \<in> set d then prefix ''verify-'' (auditVerifyJobName d)
    else auditVerifyJobName d = take 63 d)"
proof -
  have no_colon: "CHR '':'' \<notin> set (auditVerifyJobName d)"
  proof (cases "CHR '':'' \<in> set d")
    case True
    have "set (auditVerifyJobName d) \<subseteq>
        set (''verify-'' @ ReplaceColons (tl (dropWhile (\<lambda>c. c \<noteq> CHR '':'') d)))"
      unfolding auditVerifyJobName_colon [OF True] by (rule set_take_subset)
    moreover have "CHR '':'' \<notin>
        set (''verify-'' @ ReplaceColons (tl (dropWhile (\<lambda>c. c \<noteq> CHR '':'') d)))"
      using ReplaceColons_no_colon by simp
    ultimately show ?thesis by blast
  next
    case False
    then show ?thesis
      by (auto simp: auditVerifyJobName_plain dest: in_set_takeD)
  qed
  have len: "length (auditVerifyJobName d) \<le> 63"
    by (cases "CHR '':'' \<in> set d") (simp_all add: auditVerifyJobName_colon auditVerifyJobName_plain)
  have pre: "CHR '':'' \<in> set d \<Longrightarrow> prefix ''verify-'' (auditVerifyJobName d)"
    by (simp add: auditVerifyJobName_colon)
  show ?thesis
    using no_colon len pre by (simp add: auditVerifyJobName_colon auditVerifyJobName_plain)
qed

subsection \<open>Properties of the tracker\<close>


lemma time_Sub_cooldown: "time_Sub t u > 12 * Hour \<longleftrightarrow> t - u > 12 * Hour"
  by (simp add: time_Sub_def Let_def Hour_def Second_def maxDuration_def minDuration_def)


lemma syncTag_unrecognized: "\<not> recognizedTag p tag \<Longrightarrow> syncTag p release now later tag st = st"
  by (simp add: syncTag_def)

lemma found_syncTag:
  "found (syncTag p release now later tag st) =
     (if recognizedTag p tag then insert (tag_Name tag) (found st) else found st)"
  by (simp add: syncTag_def Let_def split: option.splits)

lemma recs_syncTag_other:
  "tag_Name tag \<noteq> n \<Longrightarrow> recs (syncTag p release now later tag st) n = recs st n"
  by (simp add: syncTag_def Let_def split: option.splits)

lemma recs_syncTag_existing:
  "recognizedTag p tag \<Longrightarrow> recs st (tag_Name tag) = Some r \<Longrightarrow>
   recs (syncTag p release now later tag st) (tag_Name tag) =
     Some (if later - At r > 12 * Hour then r\<lparr>At := now, Failure := None\<rparr> else r)"
  by (simp add: syncTag_def Let_def time_Sub_cooldown)

lemma queued_syncTag_existing:
  "recognizedTag p tag \<Longrightarrow> recs st (tag_Name tag) = Some r \<Longrightarrow>
   queued (syncTag p release now later tag st) =
     (if later - At r > 12 * Hour
         \<or> Location r \<noteq> findPublicImagePullSpec p (Target release) (tag_Name tag)
         \<or> ID r \<noteq> findImageIDForTag p (Target release) (tag_Name tag)
      then queued st @ [tag_Name tag] else queued st)"
  by (simp add: syncTag_def Let_def time_Sub_cooldown)

lemma queued_syncTag_other:
  "tag_Name tag \<noteq> n \<Longrightarrow> n \<in> set (queued (syncTag p release now later tag st)) \<longleftrightarrow> n \<in> set (queued st)"
  by (simp add: syncTag_def Let_def split: option.splits)

lemma syncTags_append:
  "syncTags p release now later i (xs @ ys) st =
     syncTags p release now later (i + length xs) ys (syncTags p release now later i xs st)"
  by (induction xs arbitrary: i st) simp_all

lemma recs_syncTags_other:
  "n \<notin> tag_Name ` set tags \<Longrightarrow> recs (syncTags p release now later i tags st) n = recs st n"
  by (induction tags arbitrary: i st) (auto simp: recs_syncTag_other)

lemma queued_syncTags_other:
  "n \<notin> tag_Name ` set tags \<Longrightarrow>
   n \<in> set (queued (syncTags p release now later i tags st)) \<longleftrightarrow> n \<in> set (queued st)"
  by (induction tags arbitrary: i st) (auto simp: queued_syncTag_other)

lemma found_syncTags:
  "found (syncTags p release now later i tags st) =
     found st \<union> tag_Name ` {t \<in> set tags. recognizedTag p t}"
  by (induction tags arbitrary: i st) (auto simp: found_syncTag)

lemma recs_syncTag_kept:
  assumes "recs st k = Some r'" and "r' = r \<or> r' = refreshed now r"
  shows "\<exists>r''. recs (syncTag p release now later tag st) k = Some r'' \<and>
           (r'' = r \<or> r'' = refreshed now r)"
proof (cases "recognizedTag p tag \<and> tag_Name tag = k")
  case True
  then have "recs (syncTag p release now later tag st) k =
      Some (if later - At r' > 12 * Hour then r'\<lparr>At := now, Failure := None\<rparr> else r')"
    using recs_syncTag_existing [of p tag st r' release now later] assms(1) by simp
  with assms(2) show ?thesis by (auto simp: refreshed_def)
next
  case False
  then have "recs (syncTag p release now later tag st) k = recs st k"
    by (cases "recognizedTag p tag") (auto simp: syncTag_unrecognized recs_syncTag_other)
  with assms show ?thesis by simp
qed

lemma recs_syncTags_kept:
  "recs st k = Some r' \<Longrightarrow> r' = r \<or> r' = refreshed now r \<Longrightarrow>
   \<exists>r''. recs (syncTags p release now later i tags st) k = Some r'' \<and> (r'' = r \<or> r'' = refreshed now r)"
proof (induction tags arbitrary: i st r')
  case Nil
  then show ?case by simp
next
  case (Cons tag tags)
  from recs_syncTag_kept [OF Cons.prems]
  obtain r'' where "recs (syncTag p release now (later i) tag st) k = Some r''"
    "r'' = r \<or> r'' = refreshed now r" by blast
  from Cons.IH [OF this] show ?case by simp
qed

lemma recs_syncTags_unrecognized:
  "k \<notin> tag_Name ` {t \<in> set tags. recognizedTag p t} \<Longrightarrow>
   recs (syncTags p release now later i tags st) k = recs st k"
proof (induction tags arbitrary: i st)
  case Nil
  then show ?case by simp
next
  case (Cons tag tags)
  have step: "recs (syncTag p release now (later i) tag st) k = recs st k"
  proof (cases "recognizedTag p tag")
    case True
    with Cons.prems have "tag_Name tag \<noteq> k" by auto
    then show ?thesis by (rule recs_syncTag_other)
  next
    case False
    then show ?thesis by (simp add: syncTag_unrecognized)
  qed
  from Cons.prems have "k \<notin> tag_Name ` {t \<in> set tags. recognizedTag p t}" by auto
  from Cons.IH [OF this] step show ?case by simp
qed


lemma Sync_stable:
  "cfg_As (Config release) = releaseConfigModeStable p \<Longrightarrow>
   Sync p release now later m =
     (let st = syncTags p release now later 0 (is_Tags (Target release))
                 \<lparr>recs = m, found = {}, queued = []\<rparr>
      in (removeOldTags (cfg_Name (Config release)) (found st) (recs st), queued st))"
  by (simp add: Sync_def)

lemma Sync_not_stable:
  "cfg_As (Config release) \<noteq> releaseConfigModeStable p \<Longrightarrow> Sync p release now later m = (m, [])"
  by (simp add: Sync_def)

lemma Sync_tag_once:
  assumes m: "m n = Some r"
    and stable: "cfg_As (Config release) = releaseConfigModeStable p"
    and tags: "is_Tags (Target release) = pre @ tag # post"
    and tag: "tag_Name tag = n" "recognizedTag p tag"
    and once: "n \<notin> tag_Name ` (set pre \<union> set post)"
  shows "fst (Sync p release now later m) n =
           Some (if later (length pre) - At r > 12 * Hour then r\<lparr>At := now, Failure := None\<rparr> else r)"
    and "n \<in> set (snd (Sync p release now later m)) \<longleftrightarrow>
           later (length pre) - At r > 12 * Hour
           \<or> Location r \<noteq> findPublicImagePullSpec p (Target release) n
           \<or> ID r \<noteq> findImageIDForTag p (Target release) n"
proof -
  define st0 where "st0 = \<lparr>recs = m, found = {}, queued = []\<rparr>"
  define st1 where "st1 = syncTags p release now later 0 pre st0"
  define st2 where "st2 = syncTag p release now (later (length pre)) tag st1"
  define st3 where "st3 = syncTags p release now later (Suc (length pre)) post st2"
  have loop: "syncTags p release now later 0 (is_Tags (Target release)) st0 = st3"
    by (simp add: tags syncTags_append st1_def st2_def st3_def)
  from once have pre: "n \<notin> tag_Name ` set pre" and post: "n \<notin> tag_Name ` set post" by auto
  have r1: "recs st1 (tag_Name tag) = Some r"
    using recs_syncTags_other [OF pre, of p release now later 0 st0] m
    by (simp add: st1_def st0_def tag)
  have q1: "n \<notin> set (queued st1)"
    using queued_syncTags_other [OF pre, of p release now later 0 st0]
    by (simp add: st1_def st0_def)
  have r2: "recs st2 n =
      Some (if later (length pre) - At r > 12 * Hour then r\<lparr>At := now, Failure := None\<rparr> else r)"
    using recs_syncTag_existing [OF tag(2) r1, of release now "later (length pre)"]
    by (simp add: st2_def tag)
  have q2: "n \<in> set (queued st2) \<longleftrightarrow>
           later (length pre) - At r > 12 * Hour
           \<or> Location r \<noteq> findPublicImagePullSpec p (Target release) n
           \<or> ID r \<noteq> findImageIDForTag p (Target release) n"
    using queued_syncTag_existing [OF tag(2) r1, of release now "later (length pre)"] q1
    by (simp add: st2_def tag)
  have r3: "recs st3 n = recs st2 n"
    unfolding st3_def by (rule recs_syncTags_other [OF post])
  have q3: "n \<in> set (queued st3) \<longleftrightarrow> n \<in> set (queued st2)"
    unfolding st3_def by (rule queued_syncTags_other [OF post])
  have f3: "n \<in> found st3"
    using tag by (auto simp: loop [symmetric] found_syncTags tags)
  have res: "Sync p release now later m =
      (removeOldTags (cfg_Name (Config release)) (found st3) (recs st3), queued st3)"
    using loop by (simp add: Sync_stable [OF stable] st0_def)
  show "fst (Sync p release now later m) n =
           Some (if later (length pre) - At r > 12 * Hour then r\<lparr>At := now, Failure := None\<rparr> else r)"
    using r2 r3 f3 by (simp add: res removeOldTags_def)
  show "n \<in> set (snd (Sync p release now later m)) \<longleftrightarrow>
           later (length pre) - At r > 12 * Hour
           \<or> Location r \<noteq> findPublicImagePullSpec p (Target release) n
           \<or> ID r \<noteq> findImageIDForTag p (Target release) n"
    using q2 q3 by (simp add: res)
qed

lemma syncAuditTag_failed:
  "records w n = Some r \<Longrightarrow> Failure r \<noteq> None \<Longrightarrow> syncAuditTag p c env n w = (w, Ok None)"
  by (simp add: syncAuditTag_def AuditStore_HasSignature_def Get_def)

lemma Sync_other_release:
  assumes m: "m k = Some r" and other: "Release r \<noteq> cfg_Name (Config release)"
  shows "fst (Sync p release now later m) k = Some r \<or>
         (k \<in> tag_Name ` {t \<in> set (is_Tags (Target release)). recognizedTag p t} \<and>
          fst (Sync p release now later m) k = Some (r\<lparr>At := now, Failure := None\<rparr>))"
proof (cases "cfg_As (Config release) = releaseConfigModeStable p")
  case False
  then show ?thesis using m by (simp add: Sync_not_stable)
next
  case True
  define st where "st = syncTags p release now later 0 (is_Tags (Target release))
                 \<lparr>recs = m, found = {}, queued = []\<rparr>"
  have res: "fst (Sync p release now later m) =
      removeOldTags (cfg_Name (Config release)) (found st) (recs st)"
    by (simp add: Sync_stable [OF True] st_def Let_def)
  obtain r'' where r'': "recs st k = Some r''" "r'' = r \<or> r'' = refreshed now r"
    using recs_syncTags_kept [of "\<lparr>recs = m, found = {}, queued = []\<rparr>" k r r now p release later 0
        "is_Tags (Target release)"] m
    by (auto simp: st_def)
  then have rel: "Release r'' = Release r" by (auto simp: refreshed_def)
  have kept: "fst (Sync p release now later m) k = Some r''"
    using r''(1) rel other by (simp add: res removeOldTags_def)
  show ?thesis
  proof (cases "k \<in> tag_Name ` {t \<in> set (is_Tags (Target release)). recognizedTag p t}")
    case True
    with kept r''(2) show ?thesis by (auto simp: refreshed_def)
  next
    case False
    have "recs st k = m k"
      unfolding st_def using recs_syncTags_unrecognized [OF False] by simp
    with kept r''(1) m show ?thesis by simp
  qed
qed

lemma Sync_deleted:
  assumes m: "m k = Some r" and gone: "fst (Sync p release now later m) k = None"
  shows "cfg_As (Config release) = releaseConfigModeStable p \<and>
         Release r = cfg_Name (Config release) \<and>
         k \<notin> tag_Name ` {t \<in> set (is_Tags (Target release)). recognizedTag p t}"
proof -
  have stable: "cfg_As (Config release) = releaseConfigModeStable p"
    using m gone by (auto simp: Sync_def split: if_splits)
  have own: "Release r = cfg_Name (Config release)"
    using Sync_other_release [of m k r release p now later] m gone by auto
  define st where "st = syncTags p release now later 0 (is_Tags (Target release))
                 \<lparr>recs = m, found = {}, queued = []\<rparr>"
  have res: "fst (Sync p release now later m) =
      removeOldTags (cfg_Name (Config release)) (found st) (recs st)"
    by (simp add: Sync_stable [OF stable] st_def Let_def)
  obtain r'' where r'': "recs st k = Some r''"
    using recs_syncTags_kept [of "\<lparr>recs = m, found = {}, queued = []\<rparr>" k r r now p release later 0
        "is_Tags (Target release)"] m
    by (auto simp: st_def)
  have "k \<notin> found st"
    using gone r'' by (auto simp: res removeOldTags_def split: if_splits)
  then have "k \<notin> tag_Name ` {t \<in> set (is_Tags (Target release)). recognizedTag p t}"
    by (simp add: st_def found_syncTags)
  with stable own show ?thesis by simp
qed

lemma Sync_stale:
  assumes m: "m k = Some r" and stable: "cfg_As (Config release) = releaseConfigModeStable p"
    and own: "Release r = cfg_Name (Config release)"
    and stale: "k \<notin> tag_Name ` {t \<in> set (is_Tags (Target release)). recognizedTag p t}"
  shows "fst (Sync p release now later m) k = None"
proof -
  define st where "st = syncTags p release now later 0 (is_Tags (Target release))
                 \<lparr>recs = m, found = {}, queued = []\<rparr>"
  have res: "fst (Sync p release now later m) =
      removeOldTags (cfg_Name (Config release)) (found st) (recs st)"
    by (simp add: Sync_stable [OF stable] st_def Let_def)
  have "recs st k = Some r"
    unfolding st_def using recs_syncTags_unrecognized [OF stale] m by simp
  moreover have "k \<notin> found st"
    using stale by (simp add: st_def found_syncTags)
  ultimately show ?thesis using own by (simp add: res removeOldTags_def)
qed

subsection \<open>Properties of the reconciler\<close>

lemma newEvents_append: "trace w' = trace w @ evs \<Longrightarrow> newEvents w w' = evs"
  by (simp add: newEvents_def)

lemma callsOnlyI: "trace w' = trace w @ evs \<Longrightarrow> list_all P evs \<Longrightarrow> callsOnly P w w'"
  by (simp add: callsOnly_def newEvents_def)

lemma callsOnly_refl: "callsOnly P w w"
  by (simp add: callsOnly_def newEvents_def)

lemma callsOnly_trans:
  assumes "callsOnly P w w1" and "callsOnly P w1 w2"
  shows "callsOnly P w w2"
proof -
  have "trace w2 = trace w @ (newEvents w w1 @ newEvents w1 w2)"
    using assms by (simp add: callsOnly_def)
  moreover have "list_all P (newEvents w w1 @ newEvents w1 w2)"
    using assms by (simp add: callsOnly_def)
  ultimately show ?thesis by (rule callsOnlyI)
qed

lemma callsOnly_mono: "callsOnly P w w' \<Longrightarrow> (\<And>e. P e \<Longrightarrow> Q e) \<Longrightarrow> callsOnly Q w w'"
  by (auto simp: callsOnly_def list_all_iff)

lemma callsOnly_emit: "P e \<Longrightarrow> callsOnly P w (emit e w)"
  by (rule callsOnlyI [where evs = "[e]"]) (simp_all add: emit_def)

lemma callsOnly_emit_after: "callsOnly P w w' \<Longrightarrow> P e \<Longrightarrow> callsOnly P w (emit e w')"
  by (erule callsOnly_trans) (rule callsOnly_emit)

lemma callsOnly_records: "callsOnly P w w' \<Longrightarrow> callsOnly P w (w'\<lparr>records := m\<rparr>)"
  by (simp add: callsOnly_def newEvents_def)

lemma callsOnly_jobs: "callsOnly P w w' \<Longrightarrow> callsOnly P w (w'\<lparr>jobs := js\<rparr>)"
  by (simp add: callsOnly_def newEvents_def)

lemma callsOnly_signatures: "callsOnly P w w' \<Longrightarrow> callsOnly P w (w'\<lparr>signatures := s\<rparr>)"
  by (simp add: callsOnly_def newEvents_def)

lemma newEvents_split:
  assumes "callsOnly P w w1" and "callsOnly Q w1 w2"
  shows "newEvents w w2 = newEvents w w1 @ newEvents w1 w2"
proof -
  have "trace w2 = trace w @ (newEvents w w1 @ newEvents w1 w2)"
    using assms by (simp add: callsOnly_def)
  then show ?thesis by (rule newEvents_append)
qed

lemma newEvents_emit: "newEvents w (emit e w) = [e]"
  by (simp add: newEvents_def emit_def)

lemma verificationCall_not_signing: "verificationCall n release r e \<Longrightarrow> \<not> signingOf d e"
  by (cases e) simp_all

lemma callsOnly_quiet:
  assumes "callsOnly (verificationCall n release r) w w'" and "signatures w' = signatures w"
  shows "quiet d w w'"
proof -
  have "filter (signingOf d) (newEvents w w') = []"
    using assms(1) verificationCall_not_signing [of n release r _ d]
    by (auto simp: callsOnly_def list_all_iff filter_empty_conv)
  moreover have "trace w' = trace w @ newEvents w w'"
    using assms(1) by (simp add: callsOnly_def)
  ultimately have "filter (signingOf d) (trace w') = filter (signingOf d) (trace w)"
    by (metis append_Nil2 filter_append)
  with assms(2) show ?thesis by (simp add: quiet_def)
qed

lemma countAuditVerifyJobs_eq:
  "countAuditVerifyJobs p env w =
     (emit ListJobs w,
      (case listJobsError env of
         Some err \<Rightarrow> (0, False)
       | None \<Rightarrow> (unfinishedAuditJobs p (jobs w), True)))"
  by (simp add: countAuditVerifyJobs_def unfinishedAuditJobs_def Let_def emit_def split: option.splits)

lemma verifyJobCreateFn_world:
  "fst (verifyJobCreateFn p release record name w) =
     emit (NewReleaseJobBase name (OverrideCLIImage (Config release)) (PullSecretName (Config release))) w"
  by (simp add: verifyJobCreateFn_def Let_def split: prod.splits list.splits option.splits)

lemma ensureAuditVerifyJob_exists:
  "find (\<lambda>job. job_Name job = auditVerifyJobName (ID record)) (jobs w) = Some job \<Longrightarrow>
   ensureAuditVerifyJob p env release record w =
     (emit (EnsureJob (auditVerifyJobName (ID record))) w, Ok (Some job, None))"
  by (simp add: ensureAuditVerifyJob_def ensureJob_def Let_def emit_def)

lemma ensureAuditVerifyJob_missing:
  assumes "find (\<lambda>job. job_Name job = auditVerifyJobName (ID r)) (jobs w) = None"
    and "ensureAuditVerifyJob p env release r w = (w', res)"
  shows "callsOnly (verificationCall n release r)
           (emit (NewReleaseJobBase (auditVerifyJobName (ID r)) (OverrideCLIImage (Config release))
                    (PullSecretName (Config release)))
              (emit (EnsureJob (auditVerifyJobName (ID r))) w)) w' \<and>
         signatures w' = signatures w \<and> records w' = records w"
proof -
  define w1 where "w1 = emit (EnsureJob (auditVerifyJobName (ID r))) w"
  define w2 where "w2 = emit (NewReleaseJobBase (auditVerifyJobName (ID r))
      (OverrideCLIImage (Config release)) (PullSecretName (Config release))) w1"
  obtain wc rc where c: "verifyJobCreateFn p release r (auditVerifyJobName (ID r)) w1 = (wc, rc)"
    by force
  have wc: "wc = w2"
    using verifyJobCreateFn_world [of p release r "auditVerifyJobName (ID r)" w1] c
    by (simp add: w2_def)
  have find1: "find (\<lambda>job. job_Name job = auditVerifyJobName (ID r)) (jobs w1) = None"
    using assms(1) by (simp add: w1_def emit_def)
  have s2: "signatures w2 = signatures w" "records w2 = records w"
    by (simp_all add: w2_def w1_def emit_def)
  have "callsOnly (verificationCall n release r) w2 w' \<and>
         signatures w' = signatures w \<and> records w' = records w"
    using assms(2) find1 c wc s2
    unfolding ensureAuditVerifyJob_def ensureJob_def Let_def w1_def [symmetric]
    by (auto simp: callsOnly_refl callsOnly_emit callsOnly_jobs emit_def [of "CreateJob _"]
          intro!: callsOnlyI [where evs = "[CreateJob _]"]
          split: result.splits sum.splits option.splits)
  then show ?thesis by (simp add: w2_def w1_def)
qed


lemma ensureAuditVerifyJob_calls:
  assumes "ensureAuditVerifyJob p env release r w = (w', res)"
  shows "callsOnly (verificationCall n release r) (emit (EnsureJob (auditVerifyJobName (ID r))) w) w' \<and>
         signatures w' = signatures w \<and> records w' = records w"
proof (cases "find (\<lambda>job. job_Name job = auditVerifyJobName (ID r)) (jobs w)")
  case (Some job)
  from ensureAuditVerifyJob_exists [OF Some, of p env release] assms
  show ?thesis by (auto simp: callsOnly_refl emit_def)
next
  case None
  from ensureAuditVerifyJob_missing [OF None assms, of n]
  show ?thesis
    using callsOnly_trans [OF callsOnly_emit, of "verificationCall n release r"
        "NewReleaseJobBase (auditVerifyJobName (ID r)) (OverrideCLIImage (Config release))
           (PullSecretName (Config release))"]
    by auto
qed

lemma ensureJobTerminationMessageRetrieved_calls:
  "ensureJobTerminationMessageRetrieved p env job sel cn only w = (w', res) \<Longrightarrow>
   callsOnly (verificationCall n release r) w w' \<and>
   signatures w' = signatures w \<and> records w' = records w \<and> jobs w' = jobs w"
  by (auto simp: ensureJobTerminationMessageRetrieved_def Let_def callsOnly_refl callsOnly_emit
        emit_def [of _ w, THEN arg_cong [where f = signatures]]
        emit_def [of _ w, THEN arg_cong [where f = records]]
        emit_def [of _ w, THEN arg_cong [where f = jobs]]
      split: if_splits prod.splits option.splits)

lemma verifyLocal_calls:
  "verifyLocal p env r w = (w', res) \<Longrightarrow>
   callsOnly (verificationCall n release r) (emit (ExecOcVerify (Location r)) w) w' \<and>
   signatures w' = signatures w \<and> jobs w' = jobs w"
  by (auto simp: verifyLocal_def Let_def callsOnly_refl callsOnly_records
        emit_def [of _ w, THEN arg_cong [where f = signatures]]
        emit_def [of _ w, THEN arg_cong [where f = jobs]]
      split: prod.splits option.splits)

lemma verifyClusterJob_throttled:
  "listJobsError env \<noteq> None \<or> unfinishedAuditJobs p (jobs w) > 2 \<Longrightarrow>
   verifyClusterJob p env n release r w =
     (emit (AddAfter n (10 * Second)) (emit ListJobs w), Some (Ok None))"
  by (auto simp: verifyClusterJob_def countAuditVerifyJobs_eq split: option.splits)

lemma verifyClusterJob_admitted:
  assumes adm: "listJobsError env = None" "unfinishedAuditJobs p (jobs w) \<le> 2"
    and v: "verifyClusterJob p env n release r w = (w', res)"
  shows "callsOnly (verificationCall n release r)
           (emit (EnsureJob (auditVerifyJobName (ID r))) (emit ListJobs w)) w' \<and>
         signatures w' = signatures w"
    and "find (\<lambda>job. job_Name job = auditVerifyJobName (ID r)) (jobs w) = None \<Longrightarrow>
         callsOnly (verificationCall n release r)
           (emit (NewReleaseJobBase (auditVerifyJobName (ID r)) (OverrideCLIImage (Config release))
                    (PullSecretName (Config release)))
              (emit (EnsureJob (auditVerifyJobName (ID r))) (emit ListJobs w))) w'"
proof -
  define V where "V = verificationCall n release r"
  define w0 where "w0 = emit ListJobs w"
  define wE where "wE = emit (EnsureJob (auditVerifyJobName (ID r))) w0"
  define wN where "wN = emit (NewReleaseJobBase (auditVerifyJobName (ID r))
      (OverrideCLIImage (Config release)) (PullSecretName (Config release))) wE"
  have s0: "signatures w0 = signatures w" "jobs w0 = jobs w" by (simp_all add: w0_def emit_def)
  obtain w1 r1 where e: "ensureAuditVerifyJob p env release r w0 = (w1, r1)" by force
  from ensureAuditVerifyJob_calls [OF e, of n]
  have c1: "callsOnly V wE w1" and s1: "signatures w1 = signatures w"
    using s0 by (simp_all add: V_def wE_def)
  have step: "verifyClusterJob p env n release r w =
      (case (w1, r1) of
               (w, Panic v) \<Rightarrow> (w, Some (Panic v))
             | (w, Ok (Some job, None)) \<Rightarrow>
                 (case jobIsComplete p job of
                    (success, complete) \<Rightarrow>
                      if \<not> complete then (emit (AddAfter n (10 * Second)) w, Some (Ok None))
                      else if \<not> success then
                        (case ensureJobTerminationMessageRetrieved p env job
                                ''status.phase=Failed'' ''verify'' False w of
                           (w, message, code, got) \<Rightarrow>
                             (let failureMsg = ''Unable to verify release for unknown reason'';
                                  failureMsg =
                                    (if length message > 0
                                     then ''Unable to verify release:'' @ [CHR 0x0A, CHR 0x0A] @ message
                                     else failureMsg)
                              in (w\<lparr>records := SetFailure (timeNow env) (Name r) failureMsg (records w)\<rparr>,
                                  Some (Ok None))))
                      else (w, None))
             | (w, Ok (job, err)) \<Rightarrow>
                 (w, Some (Ok (Some (''unable to verify release before signing: '' @ fmt_v err)))))"
    using adm e by (simp add: verifyClusterJob_def countAuditVerifyJobs_eq w0_def)
  have rest: "callsOnly V w1 w' \<and> signatures w' = signatures w1"
  proof (cases r1)
    case (Panic pv)
    with v step show ?thesis by (simp add: callsOnly_refl)
  next
    case (Ok pr)
    obtain job err where pr: "pr = (job, err)" by (cases pr)
    show ?thesis
    proof (cases "\<exists>j. job = Some j \<and> err = None")
      case False
      with v step Ok pr show ?thesis
        by (auto simp: callsOnly_refl split: option.splits)
    next
      case True
      then obtain j where j: "job = Some j" "err = None" by blast
      obtain success complete where jc: "jobIsComplete p j = (success, complete)" by force
      obtain w2 message code got where
        t: "ensureJobTerminationMessageRetrieved p env j ''status.phase=Failed'' ''verify'' False w1
              = (w2, message, code, got)"
        by (metis prod_cases4)
      from ensureJobTerminationMessageRetrieved_calls [OF t, of n release r]
      have c2: "callsOnly V w1 w2" and s2: "signatures w2 = signatures w1"
        by (simp_all add: V_def)
      have a: "V (AddAfter n (10 * Second))" by (simp add: V_def)
      show ?thesis
        using v step Ok pr j jc t c2 s2 callsOnly_emit [of V, OF a, of w1]
        by (auto simp: Let_def callsOnly_refl callsOnly_records emit_def [of _ w1, THEN arg_cong [where f = signatures]]
            split: if_splits)
    qed
  qed
  show "callsOnly (verificationCall n release r)
           (emit (EnsureJob (auditVerifyJobName (ID r))) (emit ListJobs w)) w' \<and>
         signatures w' = signatures w"
    using callsOnly_trans [OF c1] rest s1 by (simp add: V_def wE_def w0_def)
  assume "find (\<lambda>job. job_Name job = auditVerifyJobName (ID r)) (jobs w) = None"
  then have "find (\<lambda>job. job_Name job = auditVerifyJobName (ID r)) (jobs w0) = None"
    by (simp add: s0)
  from ensureAuditVerifyJob_missing [OF this e, of n]
  have "callsOnly V wN w1" by (simp add: V_def wN_def wE_def)
  from callsOnly_trans [OF this] rest
  show "callsOnly (verificationCall n release r)
           (emit (NewReleaseJobBase (auditVerifyJobName (ID r)) (OverrideCLIImage (Config release))
                    (PullSecretName (Config release)))
              (emit (EnsureJob (auditVerifyJobName (ID r))) (emit ListJobs w))) w'"
    by (simp add: V_def wN_def wE_def w0_def)
qed

lemma verifyClusterJob_calls:
  assumes "verifyClusterJob p env n release r w = (w', res)"
  shows "callsOnly (verificationCall n release r) (emit ListJobs w) w' \<and> signatures w' = signatures w"
proof (cases "listJobsError env \<noteq> None \<or> unfinishedAuditJobs p (jobs w) > 2")
  case True
  from verifyClusterJob_throttled [OF True, of n release r] assms
  show ?thesis by (auto simp: callsOnly_emit emit_def [of _ w, THEN arg_cong [where f = signatures]]
      emit_def [of _ "emit ListJobs w", THEN arg_cong [where f = signatures]])
next
  case False
  then have adm: "listJobsError env = None" "unfinishedAuditJobs p (jobs w) \<le> 2" by auto
  from verifyClusterJob_admitted(1) [OF adm assms]
  show ?thesis
    using callsOnly_trans [OF callsOnly_emit, of "verificationCall n release r"
        "EnsureJob (auditVerifyJobName (ID r))" "emit ListJobs w" w']
    by simp
qed

lemma verifyLocal_quiet:
  assumes "verifyLocal p env r w = (w', res)"
  shows "quiet d w w'"
proof -
  from verifyLocal_calls [OF assms, of n release]
  have "callsOnly (verificationCall n release r) w w'" and "signatures w' = signatures w"
    using callsOnly_trans [OF callsOnly_emit, of "verificationCall n release r"
        "ExecOcVerify (Location r)" w w']
    by simp_all
  then show ?thesis by (rule callsOnly_quiet)
qed

lemma verifyClusterJob_quiet:
  assumes "verifyClusterJob p env n release r w = (w', res)"
  shows "quiet d w w'"
proof -
  from verifyClusterJob_calls [OF assms]
  have "callsOnly (verificationCall n release r) w w'" and "signatures w' = signatures w"
    using callsOnly_trans [OF callsOnly_emit, of "verificationCall n release r" ListJobs w w']
    by simp_all
  then show ?thesis by (rule callsOnly_quiet)
qed

lemma signAndUpload_effect:
  assumes "signAndUpload c env record w = (w', res)"
  shows "(signatures w d \<noteq> None \<longrightarrow> signatures w' d \<noteq> None) \<and>
         (ID record \<noteq> d \<longrightarrow>
            filter (signingOf d) (trace w') = filter (signingOf d) (trace w))"
  using assms
  by (auto simp: signAndUpload_def AuditStore_PutSignature_def Let_def emit_def split: option.splits prod.splits)

lemma verifyAndSign_effect:
  assumes "verifyAndSign p c env releaseName release record w = (w', res)"
  shows "(signatures w d \<noteq> None \<longrightarrow> signatures w' d \<noteq> None) \<and>
         (ID record \<noteq> d \<longrightarrow>
            filter (signingOf d) (trace w') = filter (signingOf d) (trace w))"
proof -
  define image where "image = (if length (cliImageForAudit c) = 0
      then OverrideCLIImage (Config release) else cliImageForAudit c)"
  show ?thesis
  proof (cases "length image = 0")
    case True
    with assms show ?thesis by (simp add: verifyAndSign_def Let_def image_def)
  next
    case False
    obtain w1 r1 where v: "(if image = ''local'' then verifyLocal p env record w
                  else verifyClusterJob p env releaseName release record w) = (w1, r1)"
      by force
    have q1: "quiet d w w1"
      using v verifyLocal_quiet verifyClusterJob_quiet by (auto split: if_splits)
    have step: "verifyAndSign p c env releaseName release record w =
        (case (w1, r1) of (w, Some r) \<Rightarrow> (w, r) | (w, None) \<Rightarrow> signAndUpload c env record w)"
      using False v unfolding verifyAndSign_def Let_def image_def by simp
    show ?thesis
    proof (cases r1)
      case (Some r)
      with assms step q1 show ?thesis by (auto simp: quiet_def)
    next
      case None
      with assms step have "signAndUpload c env record w1 = (w', res)" by simp
      from signAndUpload_effect [OF this, of d] q1 show ?thesis by (auto simp: quiet_def)
    qed
  qed
qed

lemma syncAuditTag_signed:
  assumes "signatures w d \<noteq> None"
  shows "signatures (fst (syncAuditTag p c env name w)) d \<noteq> None \<and>
         filter (signingOf d) (trace (fst (syncAuditTag p c env name w))) =
           filter (signingOf d) (trace w)"
proof (cases "records w name")
  case None
  with assms show ?thesis by (simp add: syncAuditTag_def AuditStore_HasSignature_def Get_def)
next
  case (Some r)
  show ?thesis
  proof (cases "Failure r \<noteq> None \<or> length (ID r) = 0")
    case True
    with assms Some show ?thesis by (auto simp: syncAuditTag_def AuditStore_HasSignature_def Get_def Let_def)
  next
    case False
    define w1 where "w1 = emit (LoadReleaseForSync (ImageStreamNamespace r) (ImageStreamName r)) w"
    define w2 where "w2 = emit (HasSignature (ID r)) w1"
    have s1: "signatures w1 = signatures w" "filter (signingOf d) (trace w1) = filter (signingOf d) (trace w)"
      by (simp_all add: w1_def emit_def)
    have s2: "signatures w2 = signatures w" "filter (signingOf d) (trace w2) = filter (signingOf d) (trace w)"
      using s1 by (simp_all add: w2_def emit_def)
    show ?thesis
    proof (cases "loadReleaseForSync env (ImageStreamNamespace r) (ImageStreamName r)")
      case (Panic v)
      with assms Some False s1 show ?thesis
        by (simp add: syncAuditTag_def AuditStore_HasSignature_def Get_def Let_def w1_def [symmetric])
    next
      case (Ok pr)
      obtain rel err where pr: "pr = (rel, err)" by (cases pr)
      show ?thesis
      proof (cases "\<exists>release. rel = Some release \<and> err = None")
        case nok: False
        with assms Some False s1 Ok pr show ?thesis
          by (auto simp: syncAuditTag_def AuditStore_HasSignature_def Get_def Let_def w1_def [symmetric] split: option.splits)
      next
        case True
        then obtain release where rel: "rel = Some release" "err = None" by blast
        show ?thesis
        proof (cases "signatures w (ID r) \<noteq> None")
          case True
          with assms Some False s2 Ok pr rel show ?thesis
            using s1 by (simp add: syncAuditTag_def AuditStore_HasSignature_def Get_def Let_def w1_def [symmetric] w2_def [symmetric])
        next
          case unsigned: False
          with assms have ne: "ID r \<noteq> d" by auto
          have step: "syncAuditTag p c env name w = verifyAndSign p c env name release r w2"
            using Some False Ok pr rel unsigned s2
            by (simp add: syncAuditTag_def AuditStore_HasSignature_def Get_def Let_def w1_def [symmetric] w2_def [symmetric])
          obtain w' res where v: "verifyAndSign p c env name release r w2 = (w', res)" by force
          from verifyAndSign_effect [OF v, of d] ne assms s2 step v show ?thesis by simp
        qed
      qed
    qed
  qed
qed

lemma syncAuditBody_signed:
  "signatures (fst (syncAuditBody p env key w)) = signatures w \<and>
   filter (signingOf d) (trace (fst (syncAuditBody p env key w))) = filter (signingOf d) (trace w)"
  by (auto simp: syncAuditBody_def Let_def emit_def comp_def split: result.splits prod.splits option.splits)

lemma run_signed:
  "signatures w d \<noteq> None \<Longrightarrow>
   signatures (run p steps w) d \<noteq> None \<and>
   filter (signingOf d) (trace (run p steps w)) = filter (signingOf d) (trace w)"
proof (induction steps arbitrary: w)
  case Nil
  then show ?case by simp
next
  case (Cons step steps)
  show ?case
  proof (cases step)
    case (ReconcileTag c env name)
    from syncAuditTag_signed [OF Cons.prems, of p c env name]
    have s: "signatures (fst (syncAuditTag p c env name w)) d \<noteq> None"
      and t: "filter (signingOf d) (trace (fst (syncAuditTag p c env name w))) =
           filter (signingOf d) (trace w)" by simp_all
    from Cons.IH [OF s] t show ?thesis by (simp add: ReconcileTag)
  next
    case (SyncRelease env key)
    from syncAuditBody_signed [of p env key w d] Cons.prems
    have s: "signatures (fst (syncAuditBody p env key w)) d \<noteq> None"
      and t: "filter (signingOf d) (trace (fst (syncAuditBody p env key w))) =
           filter (signingOf d) (trace w)" by simp_all
    from Cons.IH [OF s] t show ?thesis by (simp add: SyncRelease)
  qed
qed

lemma signAndUpload_calls:
  assumes "signAndUpload c env r w = (w', res)"
  shows "callsOnly (signingCall r) w w' \<and> jobs w' = jobs w \<and> records w' = records w"
proof -
  have "\<exists>evs. trace w' = trace w @ evs \<and> list_all (signingCall r) evs"
    using assms
    by (auto simp: signAndUpload_def AuditStore_PutSignature_def Let_def emit_def split: option.splits prod.splits)
  then have "callsOnly (signingCall r) w w'" by (auto intro: callsOnlyI)
  moreover have "jobs w' = jobs w \<and> records w' = records w"
    using assms
    by (auto simp: signAndUpload_def AuditStore_PutSignature_def Let_def emit_def split: option.splits prod.splits)
  ultimately show ?thesis by simp
qed

lemma syncAuditTag_ready:
  assumes "records w n = Some r" "Failure r = None" "ID r \<noteq> []"
    and "loadReleaseForSync env (ImageStreamNamespace r) (ImageStreamName r) = Ok (Some release, None)"
    and "signatures w (ID r) = None"
  shows "syncAuditTag p c env n w =
     verifyAndSign p c env n release r
       (emit (HasSignature (ID r))
          (emit (LoadReleaseForSync (ImageStreamNamespace r) (ImageStreamName r)) w))"
  using assms by (simp add: syncAuditTag_def AuditStore_HasSignature_def Get_def Let_def emit_def)

lemma verifyAndSign_local:
  assumes img: "(if length (cliImageForAudit c) = 0 then OverrideCLIImage (Config release)
                 else cliImageForAudit c) = ''local''"
    and v: "verifyAndSign p c env n release r w = (w', res)"
  shows "callsOnly (signingCall r) (emit (ExecOcVerify (Location r)) w) w' \<and> jobs w' = jobs w"
proof -
  obtain w1 r1 where l: "verifyLocal p env r w = (w1, r1)" by force
  have t1: "trace w1 = trace (emit (ExecOcVerify (Location r)) w)" "jobs w1 = jobs w"
    using l by (auto simp: verifyLocal_def Let_def emit_def split: prod.splits option.splits)
  have c1: "callsOnly (signingCall r) (emit (ExecOcVerify (Location r)) w) w1"
    by (rule callsOnlyI [where evs = "[]"]) (simp_all add: t1)
  have step: "verifyAndSign p c env n release r w =
      (case r1 of Some res \<Rightarrow> (w1, res) | None \<Rightarrow> signAndUpload c env r w1)"
    using img l by (simp add: verifyAndSign_def Let_def)
  show ?thesis
  proof (cases r1)
    case (Some x)
    with v step c1 t1 show ?thesis by simp
  next
    case None
    with v step have "signAndUpload c env r w1 = (w', res)" by simp
    from signAndUpload_calls [OF this] callsOnly_trans [OF c1] t1 show ?thesis by simp
  qed
qed

text \<open>
  C10: when the controller has no pinned audit CLI image and the release's
  \<^verbatim>\<open>OverrideCLIImage\<close> is the string \<^verbatim>\<open>local\<close>, a reconciliation that gets as far as
  verification (tracked record without failure and with a digest, release loaded, no signature
  held) runs the local \<^verbatim>\<open>oc\<close> command on the record's location: the calls start with the
  release load, the signature query and the command, every later call belongs to the signing
  switch, and no job is listed, acquired or created.
\<close>

theorem C10_override_selects_local:
  assumes "records w n = Some r" and "Failure r = None" and "ID r \<noteq> []"
    and "loadReleaseForSync env (ImageStreamNamespace r) (ImageStreamName r) = Ok (Some release, None)"
    and "signatures w (ID r) = None"
    and "cliImageForAudit c = []" and "OverrideCLIImage (Config release) = ''local''"
  shows "take 3 (newEvents w (fst (syncAuditTag p c env n w))) =
           [LoadReleaseForSync (ImageStreamNamespace r) (ImageStreamName r),
            HasSignature (ID r), ExecOcVerify (Location r)] \<and>
         list_all (signingCall r) (drop 3 (newEvents w (fst (syncAuditTag p c env n w)))) \<and>
         jobs (fst (syncAuditTag p c env n w)) = jobs w"
proof -
  define w2 where "w2 = emit (HasSignature (ID r))
          (emit (LoadReleaseForSync (ImageStreamNamespace r) (ImageStreamName r)) w)"
  define w3 where "w3 = emit (ExecOcVerify (Location r)) w2"
  obtain w' res where v: "verifyAndSign p c env n release r w2 = (w', res)" by force
  have s: "syncAuditTag p c env n w = (w', res)"
    using syncAuditTag_ready [OF assms(1-5)] v by (simp add: w2_def)
  have img: "(if length (cliImageForAudit c) = 0 then OverrideCLIImage (Config release)
                 else cliImageForAudit c) = ''local''"
    using assms(6,7) by simp
  from verifyAndSign_local [OF img v]
  have c3: "callsOnly (signingCall r) w3 w'" and j: "jobs w' = jobs w2" by (simp_all add: w3_def)
  have t3: "trace w3 = trace w @ [LoadReleaseForSync (ImageStreamNamespace r) (ImageStreamName r),
            HasSignature (ID r), ExecOcVerify (Location r)]"
    by (simp add: w3_def w2_def emit_def)
  have "trace w' = trace w @ ([LoadReleaseForSync (ImageStreamNamespace r) (ImageStreamName r),
            HasSignature (ID r), ExecOcVerify (Location r)] @ newEvents w3 w')"
    using c3 t3 by (simp add: callsOnly_def)
  then have n: "newEvents w w' = [LoadReleaseForSync (ImageStreamNamespace r) (ImageStreamName r),
            HasSignature (ID r), ExecOcVerify (Location r)] @ newEvents w3 w'"
    by (rule newEvents_append)
  have "jobs w2 = jobs w" by (simp add: w2_def emit_def)
  with n c3 j show ?thesis by (simp add: s callsOnly_def)
qed


lemma verifyAndSign_cluster_after:
  assumes img: "(if length (cliImageForAudit c) = 0 then OverrideCLIImage (Config release)
                 else cliImageForAudit c) = img" "img \<noteq> []" "img \<noteq> ''local''"
    and b: "verifyClusterJob p env n release r w = (w1, r1)"
    and c0: "callsOnly (verificationCall n release r) w0 w1"
    and v: "verifyAndSign p c env n release r w = (w', res)"
  shows "callsOnly (\<lambda>e. verificationCall n release r e \<or> signingCall r e) w0 w'"
proof -
  have step: "verifyAndSign p c env n release r w =
      (case r1 of Some res \<Rightarrow> (w1, res) | None \<Rightarrow> signAndUpload c env r w1)"
    using img b by (auto simp: verifyAndSign_def Let_def)
  have c1: "callsOnly (\<lambda>e. verificationCall n release r e \<or> signingCall r e) w0 w1"
    using c0 by (rule callsOnly_mono) simp
  show ?thesis
  proof (cases r1)
    case (Some x)
    with v step c1 show ?thesis by simp
  next
    case None
    with v step have "signAndUpload c env r w1 = (w', res)" by simp
    from signAndUpload_calls [OF this]
    have "callsOnly (\<lambda>e. verificationCall n release r e \<or> signingCall r e) w1 w'"
      by (auto elim: callsOnly_mono)
    with c1 show ?thesis by (rule callsOnly_trans)
  qed
qed

lemma verifyAndSign_calls:
  assumes v: "verifyAndSign p c env n release r w = (w', res)"
  shows "callsOnly (\<lambda>e. verificationCall n release r e \<or> signingCall r e) w w'"
proof -
  define img where "img = (if length (cliImageForAudit c) = 0 then OverrideCLIImage (Config release)
                 else cliImageForAudit c)"
  show ?thesis
  proof (cases "img = []")
    case True
    with v show ?thesis by (simp add: verifyAndSign_def Let_def img_def callsOnly_refl)
  next
    case False
    show ?thesis
    proof (cases "img = ''local''")
      case True
      from verifyAndSign_local [OF True [unfolded img_def] v]
      have "callsOnly (signingCall r) (emit (ExecOcVerify (Location r)) w) w'" by simp
      then have "callsOnly (\<lambda>e. verificationCall n release r e \<or> signingCall r e)
          (emit (ExecOcVerify (Location r)) w) w'"
        by (rule callsOnly_mono) simp
      moreover have "callsOnly (\<lambda>e. verificationCall n release r e \<or> signingCall r e)
          w (emit (ExecOcVerify (Location r)) w)"
        by (rule callsOnly_emit) simp
      ultimately show ?thesis using callsOnly_trans by blast
    next
      case nl: False
      obtain w1 r1 where b: "verifyClusterJob p env n release r w = (w1, r1)" by force
      from verifyClusterJob_calls [OF b]
      have "callsOnly (verificationCall n release r) w w1"
        using callsOnly_trans [OF callsOnly_emit, of "verificationCall n release r" ListJobs w w1]
        by simp
      from verifyAndSign_cluster_after [OF img_def [symmetric] False nl b this v]
      show ?thesis .
    qed
  qed
qed

lemma newEvents_after:
  assumes "trace w0 = trace w @ pre" and "callsOnly P w0 w'"
  shows "newEvents w w' = pre @ newEvents w0 w'" and "list_all P (newEvents w0 w')"
proof -
  from assms have "trace w' = trace w @ (pre @ newEvents w0 w')" by (simp add: callsOnly_def)
  then show "newEvents w w' = pre @ newEvents w0 w'" by (rule newEvents_append)
  from assms(2) show "list_all P (newEvents w0 w')" by (simp add: callsOnly_def)
qed

lemma newReleaseJobBase_calls:
  assumes "records w n = Some r" and "Failure r = None" and "ID r \<noteq> []"
    and "loadReleaseForSync env (ImageStreamNamespace r) (ImageStreamName r) = Ok (Some release, None)"
    and "signatures w (ID r) = None"
  shows "(\<forall>name cliImage pullSecret.
            NewReleaseJobBase name cliImage pullSecret \<in> set (newEvents w (fst (syncAuditTag p c env n w)))
            \<longrightarrow> cliImage = OverrideCLIImage (Config release)) \<and>
         (cliImageForAudit c \<noteq> [] \<and> cliImageForAudit c \<noteq> ''local'' \<and>
          OverrideCLIImage (Config release) = [] \<and>
          listJobsError env = None \<and> unfinishedAuditJobs p (jobs w) \<le> 2 \<and>
          find (\<lambda>job. job_Name job = auditVerifyJobName (ID r)) (jobs w) = None \<longrightarrow>
            take 5 (newEvents w (fst (syncAuditTag p c env n w))) =
              [LoadReleaseForSync (ImageStreamNamespace r) (ImageStreamName r),
               HasSignature (ID r), ListJobs, EnsureJob (auditVerifyJobName (ID r)),
               NewReleaseJobBase (auditVerifyJobName (ID r)) [] (PullSecretName (Config release))])"
proof -
  define w2 where "w2 = emit (HasSignature (ID r))
          (emit (LoadReleaseForSync (ImageStreamNamespace r) (ImageStreamName r)) w)"
  obtain w' res where v: "verifyAndSign p c env n release r w2 = (w', res)" by force
  have s: "syncAuditTag p c env n w = (w', res)"
    using syncAuditTag_ready [OF assms] v by (simp add: w2_def)
  have t2: "trace w2 = trace w @ [LoadReleaseForSync (ImageStreamNamespace r) (ImageStreamName r),
               HasSignature (ID r)]"
    by (simp add: w2_def emit_def)
  have j2: "jobs w2 = jobs w" by (simp add: w2_def emit_def)
  have general: "cliImage = OverrideCLIImage (Config release)"
    if "NewReleaseJobBase name cliImage pullSecret \<in> set (newEvents w w')"
    for name cliImage pullSecret
  proof -
    from newEvents_after [OF t2 verifyAndSign_calls [OF v]]
    have "newEvents w w' = [LoadReleaseForSync (ImageStreamNamespace r) (ImageStreamName r),
               HasSignature (ID r)] @ newEvents w2 w'"
      and "list_all (\<lambda>e. verificationCall n release r e \<or> signingCall r e) (newEvents w2 w')"
      by simp_all
    with that have "verificationCall n release r (NewReleaseJobBase name cliImage pullSecret)
        \<or> signingCall r (NewReleaseJobBase name cliImage pullSecret)"
      by (auto simp: list_all_iff)
    then show ?thesis by simp
  qed
  have pinned: "take 5 (newEvents w w') =
              [LoadReleaseForSync (ImageStreamNamespace r) (ImageStreamName r),
               HasSignature (ID r), ListJobs, EnsureJob (auditVerifyJobName (ID r)),
               NewReleaseJobBase (auditVerifyJobName (ID r)) [] (PullSecretName (Config release))]"
    if pin: "cliImageForAudit c \<noteq> []" "cliImageForAudit c \<noteq> ''local''"
      and ov: "OverrideCLIImage (Config release) = []"
      and adm: "listJobsError env = None" "unfinishedAuditJobs p (jobs w) \<le> 2"
      and missing: "find (\<lambda>job. job_Name job = auditVerifyJobName (ID r)) (jobs w) = None"
  proof -
    define w5 where "w5 = emit (NewReleaseJobBase (auditVerifyJobName (ID r))
        (OverrideCLIImage (Config release)) (PullSecretName (Config release)))
          (emit (EnsureJob (auditVerifyJobName (ID r))) (emit ListJobs w2))"
    obtain w1 r1 where b: "verifyClusterJob p env n release r w2 = (w1, r1)" by force
    have img: "(if length (cliImageForAudit c) = 0 then OverrideCLIImage (Config release)
                 else cliImageForAudit c) = cliImageForAudit c"
      using pin by simp
    from verifyClusterJob_admitted(2) [OF adm(1) _ b] adm(2) missing j2
    have "callsOnly (verificationCall n release r) w5 w1" by (simp add: w5_def)
    from verifyAndSign_cluster_after [OF img pin b this v]
    have c5: "callsOnly (\<lambda>e. verificationCall n release r e \<or> signingCall r e) w5 w'" .
    have t5: "trace w5 = trace w @ [LoadReleaseForSync (ImageStreamNamespace r) (ImageStreamName r),
               HasSignature (ID r), ListJobs, EnsureJob (auditVerifyJobName (ID r)),
               NewReleaseJobBase (auditVerifyJobName (ID r)) [] (PullSecretName (Config release))]"
      using ov by (simp add: w5_def w2_def emit_def)
    from newEvents_after(1) [OF t5 c5] show ?thesis by simp
  qed
  show ?thesis using general pinned by (simp add: s)
qed

lemma syncAuditTag_poll:
  assumes "records w n = Some r" and "Failure r = None" and "ID r \<noteq> []"
    and "loadReleaseForSync env (ImageStreamNamespace r) (ImageStreamName r) = Ok (Some release, None)"
    and "signatures w (ID r) = None"
    and img: "(if length (cliImageForAudit c) = 0 then OverrideCLIImage (Config release)
          else cliImageForAudit c) = img" "img \<noteq> []" "img \<noteq> ''local''"
    and adm: "listJobsError env = None" "unfinishedAuditJobs p (jobs w) \<le> 2"
    and e: "ensureAuditVerifyJob p env release r
              (w\<lparr>trace := trace w @
                 [LoadReleaseForSync (ImageStreamNamespace r) (ImageStreamName r),
                  HasSignature (ID r), ListJobs]\<rparr>) = (w4, Ok (Some job, None))"
  shows "syncAuditTag p c env n w =
           (case jobIsComplete p job of
              (success, complete) \<Rightarrow>
                if \<not> complete then (emit (AddAfter n (10 * Second)) w4, Ok None)
                else if \<not> success then
                  (case ensureJobTerminationMessageRetrieved p env job
                          ''status.phase=Failed'' ''verify'' False w4 of
                     (w5, message, code, got) \<Rightarrow>
                       (w5\<lparr>records := SetFailure (timeNow env) (Name r)
                              (if length message > 0
                               then ''Unable to verify release:'' @ [CHR 0x0A, CHR 0x0A] @ message
                               else ''Unable to verify release for unknown reason'')
                              (records w5)\<rparr>,
                        Ok None))
                else signAndUpload c env r w4)"
proof -
  define w2 where "w2 = emit (HasSignature (ID r))
          (emit (LoadReleaseForSync (ImageStreamNamespace r) (ImageStreamName r)) w)"
  have j2: "jobs w2 = jobs w" by (simp add: w2_def emit_def)
  have w3: "emit ListJobs w2 = w\<lparr>trace := trace w @
                 [LoadReleaseForSync (ImageStreamNamespace r) (ImageStreamName r),
                  HasSignature (ID r), ListJobs]\<rparr>"
    by (simp add: w2_def emit_def)
  have s: "syncAuditTag p c env n w = verifyAndSign p c env n release r w2"
    using syncAuditTag_ready [OF assms(1-5)] by (simp add: w2_def)
  obtain success complete where jc: "jobIsComplete p job = (success, complete)" by force
  obtain w5 message code got where
    t: "ensureJobTerminationMessageRetrieved p env job ''status.phase=Failed'' ''verify'' False w4
              = (w5, message, code, got)"
    by (metis prod_cases4)
  have b: "verifyClusterJob p env n release r w2 =
      (if \<not> complete then (emit (AddAfter n (10 * Second)) w4, Some (Ok None))
       else if \<not> success then
         (w5\<lparr>records := SetFailure (timeNow env) (Name r)
                              (if length message > 0
                               then ''Unable to verify release:'' @ [CHR 0x0A, CHR 0x0A] @ message
                               else ''Unable to verify release for unknown reason'')
                              (records w5)\<rparr>, Some (Ok None))
       else (w4, None))"
    using adm e jc t by (simp add: verifyClusterJob_def countAuditVerifyJobs_eq j2 w3 Let_def)
  have "verifyAndSign p c env n release r w2 =
      (if \<not> complete then (emit (AddAfter n (10 * Second)) w4, Ok None)
       else if \<not> success then
         (w5\<lparr>records := SetFailure (timeNow env) (Name r)
                              (if length message > 0
                               then ''Unable to verify release:'' @ [CHR 0x0A, CHR 0x0A] @ message
                               else ''Unable to verify release for unknown reason'')
                              (records w5)\<rparr>, Ok None)
       else signAndUpload c env r w4)"
    using img b by (auto simp: verifyAndSign_def Let_def)
  then show ?thesis by (simp add: s jc t)
qed

lemma verifyJobCreateFn_job:
  assumes "newReleaseJobBase p name (OverrideCLIImage (Config release)) (PullSecretName (Config release))
             = (base, pfx)"
    and "job_Containers base = c0 # cs" and "job_Annotations base = Some a"
  shows "verifyJobCreateFn p release r name w =
     (emit (NewReleaseJobBase name (OverrideCLIImage (Config release)) (PullSecretName (Config release))) w,
      Ok (Inr (base\<lparr>job_Containers :=
                    c0\<lparr>c_Name := ''verify'',
                       c_Command := [''/bin/bash'', ''-c'', pfx @ verifyScript, [], Location r]\<rparr> # cs,
                  job_Labels := Some ((case job_Labels base of None \<Rightarrow> Map.empty | Some l \<Rightarrow> l)
                                 (releaseAnnotationJobPurpose p \<mapsto> ''audit'')),
                  job_Annotations := Some (a
                        (releaseAnnotationSource p \<mapsto>
                           is_Namespace (Source release) @ ''/'' @ is_Name (Source release),
                         releaseAnnotationTarget p \<mapsto>
                           is_Namespace (Target release) @ ''/'' @ is_Name (Target release),
                         releaseAnnotationReleaseTag p \<mapsto> Name r,
                         releaseAnnotationJobPurpose p \<mapsto> ''audit''))\<rparr>)))"
  using assms by (cases "job_Labels base") (simp_all add: verifyJobCreateFn_def Let_def)

lemma ensureAuditVerifyJob_created:
  assumes "find (\<lambda>job. job_Name job = auditVerifyJobName (ID r)) (jobs w) = None"
    and "verifyJobCreateFn p release r (auditVerifyJobName (ID r))
           (emit (EnsureJob (auditVerifyJobName (ID r))) w) = (w1, Ok (Inr job))"
    and "createJobError env job = None"
  shows "ensureAuditVerifyJob p env release r w =
           ((emit (CreateJob (job_Name job)) w1)\<lparr>jobs := jobs w1 @ [job]\<rparr>, Ok (Some job, None))"
  using assms by (simp add: ensureAuditVerifyJob_def ensureJob_def Let_def emit_def)

lemma syncAuditTag_creates:
  assumes "records w n = Some r" and "Failure r = None" and "ID r \<noteq> []"
    and "loadReleaseForSync env (ImageStreamNamespace r) (ImageStreamName r) = Ok (Some release, None)"
    and "signatures w (ID r) = None"
    and img: "(if length (cliImageForAudit c) = 0 then OverrideCLIImage (Config release)
          else cliImageForAudit c) = img" "img \<noteq> []" "img \<noteq> ''local''"
    and adm: "listJobsError env = None" "unfinishedAuditJobs p (jobs w) \<le> 2"
    and missing: "find (\<lambda>job. job_Name job = auditVerifyJobName (ID r)) (jobs w) = None"
    and base: "newReleaseJobBase p (auditVerifyJobName (ID r)) (OverrideCLIImage (Config release))
                 (PullSecretName (Config release)) = (base, pfx)"
      "job_Containers base = c0 # cs" "job_Annotations base = Some a"
    and job: "job = base\<lparr>job_Containers :=
                    c0\<lparr>c_Name := ''verify'',
                       c_Command := [''/bin/bash'', ''-c'', pfx @ verifyScript, [], Location r]\<rparr> # cs,
                  job_Labels := Some ((case job_Labels base of None \<Rightarrow> Map.empty | Some l \<Rightarrow> l)
                                 (releaseAnnotationJobPurpose p \<mapsto> ''audit'')),
                  job_Annotations := Some (a
                        (releaseAnnotationSource p \<mapsto>
                           is_Namespace (Source release) @ ''/'' @ is_Name (Source release),
                         releaseAnnotationTarget p \<mapsto>
                           is_Namespace (Target release) @ ''/'' @ is_Name (Target release),
                         releaseAnnotationReleaseTag p \<mapsto> Name r,
                         releaseAnnotationJobPurpose p \<mapsto> ''audit''))\<rparr>"
    and created: "createJobError env job = None"
  shows "jobs (fst (syncAuditTag p c env n w)) = jobs w @ [job]"
proof -
  define w3 where "w3 = w\<lparr>trace := trace w @
                 [LoadReleaseForSync (ImageStreamNamespace r) (ImageStreamName r),
                  HasSignature (ID r), ListJobs]\<rparr>"
  define wN where "wN = emit (NewReleaseJobBase (auditVerifyJobName (ID r))
      (OverrideCLIImage (Config release)) (PullSecretName (Config release)))
        (emit (EnsureJob (auditVerifyJobName (ID r))) w3)"
  define w4 where "w4 = (emit (CreateJob (job_Name job)) wN)\<lparr>jobs := jobs wN @ [job]\<rparr>"
  have j3: "jobs w3 = jobs w" by (simp add: w3_def)
  have jN: "jobs wN = jobs w" by (simp add: wN_def emit_def j3)
  have j4: "jobs w4 = jobs w @ [job]" by (simp add: w4_def jN)
  have cf: "verifyJobCreateFn p release r (auditVerifyJobName (ID r))
           (emit (EnsureJob (auditVerifyJobName (ID r))) w3) = (wN, Ok (Inr job))"
    using verifyJobCreateFn_job [OF base, of r "emit (EnsureJob (auditVerifyJobName (ID r))) w3"]
    by (simp add: wN_def job)
  have e: "ensureAuditVerifyJob p env release r w3 = (w4, Ok (Some job, None))"
    using ensureAuditVerifyJob_created [OF _ cf created] missing by (simp add: j3 w4_def)
  obtain w5 message code got where
    t: "ensureJobTerminationMessageRetrieved p env job ''status.phase=Failed'' ''verify'' False w4
              = (w5, message, code, got)"
    by (metis prod_cases4)
  from ensureJobTerminationMessageRetrieved_calls [OF t] have j5: "jobs w5 = jobs w4" by simp
  obtain w6 res where su: "signAndUpload c env r w4 = (w6, res)" by force
  from signAndUpload_calls [OF su] have j6: "jobs w6 = jobs w4" by simp
  obtain success complete where jc: "jobIsComplete p job = (success, complete)" by force
  from syncAuditTag_poll [OF assms(1-10) e [unfolded w3_def]]
  show ?thesis
    by (simp add: jc t su j4 j5 j6 emit_def split: if_splits)
qed

text \<open>
  C9: in a reconciliation that gets as far as verification, every call of
  \<^verbatim>\<open>newReleaseJobBase\<close> is made with the release's \<^verbatim>\<open>OverrideCLIImage\<close> as its CLI image,
  whatever the controller's pinned image is. So when a pinned image (not empty, not
  \<^verbatim>\<open>local\<close>) selects the cluster-job path for a release without override, the listing
  succeeds with at most 2 unfinished jobs and no job of the name exists, the job base is built
  with the empty CLI image. And whenever the cluster-job path creates a job, the job added to
  the job namespace is the base that \<^verbatim>\<open>newReleaseJobBase\<close> returns for the job name, the
  release's \<^verbatim>\<open>OverrideCLIImage\<close> and its pull secret, with the first container renamed and
  given the verify command, the purpose label, and the four annotations: nothing of the pinned
  image enters it.
\<close>

theorem C9_job_cli_image:
  assumes "records w n = Some r" and "Failure r = None" and "ID r \<noteq> []"
    and "loadReleaseForSync env (ImageStreamNamespace r) (ImageStreamName r) = Ok (Some release, None)"
    and "signatures w (ID r) = None"
  shows "(\<forall>name cliImage pullSecret.
            NewReleaseJobBase name cliImage pullSecret \<in> set (newEvents w (fst (syncAuditTag p c env n w)))
            \<longrightarrow> cliImage = OverrideCLIImage (Config release)) \<and>
         (cliImageForAudit c \<noteq> [] \<and> cliImageForAudit c \<noteq> ''local'' \<and>
          OverrideCLIImage (Config release) = [] \<and>
          listJobsError env = None \<and> unfinishedAuditJobs p (jobs w) \<le> 2 \<and>
          find (\<lambda>job. job_Name job = auditVerifyJobName (ID r)) (jobs w) = None \<longrightarrow>
            take 5 (newEvents w (fst (syncAuditTag p c env n w))) =
              [LoadReleaseForSync (ImageStreamNamespace r) (ImageStreamName r),
               HasSignature (ID r), ListJobs, EnsureJob (auditVerifyJobName (ID r)),
               NewReleaseJobBase (auditVerifyJobName (ID r)) [] (PullSecretName (Config release))]) \<and>
         ((if length (cliImageForAudit c) = 0 then OverrideCLIImage (Config release)
           else cliImageForAudit c) \<noteq> [] \<and>
          (if length (cliImageForAudit c) = 0 then OverrideCLIImage (Config release)
           else cliImageForAudit c) \<noteq> ''local'' \<and>
          listJobsError env = None \<and> unfinishedAuditJobs p (jobs w) \<le> 2 \<and>
          find (\<lambda>job. job_Name job = auditVerifyJobName (ID r)) (jobs w) = None \<and>
          newReleaseJobBase p (auditVerifyJobName (ID r)) (OverrideCLIImage (Config release))
            (PullSecretName (Config release)) = (base, pfx) \<and>
          job_Containers base = c0 # cs \<and> job_Annotations base = Some a \<and>
          createJobError env
            (base\<lparr>job_Containers :=
                    c0\<lparr>c_Name := ''verify'',
                       c_Command := [''/bin/bash'', ''-c'', pfx @ verifyScript, [], Location r]\<rparr> # cs,
                  job_Labels := Some ((case job_Labels base of None \<Rightarrow> Map.empty | Some l \<Rightarrow> l)
                                 (releaseAnnotationJobPurpose p \<mapsto> ''audit'')),
                  job_Annotations := Some (a
                        (releaseAnnotationSource p \<mapsto>
                           is_Namespace (Source release) @ ''/'' @ is_Name (Source release),
                         releaseAnnotationTarget p \<mapsto>
                           is_Namespace (Target release) @ ''/'' @ is_Name (Target release),
                         releaseAnnotationReleaseTag p \<mapsto> Name r,
                         releaseAnnotationJobPurpose p \<mapsto> ''audit''))\<rparr>) = None \<longrightarrow>
            jobs (fst (syncAuditTag p c env n w)) =
              jobs w @
              [base\<lparr>job_Containers :=
                    c0\<lparr>c_Name := ''verify'',
                       c_Command := [''/bin/bash'', ''-c'', pfx @ verifyScript, [], Location r]\<rparr> # cs,
                  job_Labels := Some ((case job_Labels base of None \<Rightarrow> Map.empty | Some l \<Rightarrow> l)
                                 (releaseAnnotationJobPurpose p \<mapsto> ''audit'')),
                  job_Annotations := Some (a
                        (releaseAnnotationSource p \<mapsto>
                           is_Namespace (Source release) @ ''/'' @ is_Name (Source release),
                         releaseAnnotationTarget p \<mapsto>
                           is_Namespace (Target release) @ ''/'' @ is_Name (Target release),
                         releaseAnnotationReleaseTag p \<mapsto> Name r,
                         releaseAnnotationJobPurpose p \<mapsto> ''audit''))\<rparr>])"
proof -
  let ?img = "if length (cliImageForAudit c) = 0 then OverrideCLIImage (Config release)
           else cliImageForAudit c"
  let ?job = "base\<lparr>job_Containers :=
                    c0\<lparr>c_Name := ''verify'',
                       c_Command := [''/bin/bash'', ''-c'', pfx @ verifyScript, [], Location r]\<rparr> # cs,
                  job_Labels := Some ((case job_Labels base of None \<Rightarrow> Map.empty | Some l \<Rightarrow> l)
                                 (releaseAnnotationJobPurpose p \<mapsto> ''audit'')),
                  job_Annotations := Some (a
                        (releaseAnnotationSource p \<mapsto>
                           is_Namespace (Source release) @ ''/'' @ is_Name (Source release),
                         releaseAnnotationTarget p \<mapsto>
                           is_Namespace (Target release) @ ''/'' @ is_Name (Target release),
                         releaseAnnotationReleaseTag p \<mapsto> Name r,
                         releaseAnnotationJobPurpose p \<mapsto> ''audit''))\<rparr>"
  have created: "jobs (fst (syncAuditTag p c env n w)) = jobs w @ [?job]"
    if "?img \<noteq> []" and "?img \<noteq> ''local''"
      and "listJobsError env = None" and "unfinishedAuditJobs p (jobs w) \<le> 2"
      and "find (\<lambda>job. job_Name job = auditVerifyJobName (ID r)) (jobs w) = None"
      and "newReleaseJobBase p (auditVerifyJobName (ID r)) (OverrideCLIImage (Config release))
            (PullSecretName (Config release)) = (base, pfx)"
      and "job_Containers base = c0 # cs" and "job_Annotations base = Some a"
      and "createJobError env ?job = None"
    by (rule syncAuditTag_creates [OF assms refl that(1-8) refl that(9)])
  show ?thesis
    using newReleaseJobBase_calls [OF assms] created by blast
qed



lemmas example_defs = examplePkg_def exampleTag_def exampleRelease_def exampleRecord_def
  exampleFailure_def exampleEnv_def exampleController_def exampleJob_def exampleWorld_def
  record410_def release410_def world410_def

lemmas sync_defs = Sync_def syncTag_def recognizedTag_def removeOldTags_def time_Sub_def
  Hour_def Second_def maxDuration_def minDuration_def Let_def

lemmas reconcile_defs = syncAuditTag_def AuditStore_HasSignature_def Get_def SetFailure_def verifyAndSign_def verifyLocal_def
  verifyClusterJob_def countAuditVerifyJobs_def auditVerifyJobSelector_def unfinishedAuditJobs_def
  ensureAuditVerifyJob_def ensureJob_def verifyJobCreateFn_def signAndUpload_def
  AuditStore_PutSignature_def
  ensureJobTerminationMessageRetrieved_def emit_def newEvents_def
  auditVerifyJobName_def SplitN2_def ReplaceColons_def Second_def Hour_def Let_def

text \<open>C10 at the scenario's tag, with no pinned image and the override \<^verbatim>\<open>local\<close>.\<close>

theorem C10_override_selects_local_witness:
  "records (world410 []) ''4.10.0'' = Some record410 \<and>
   Failure record410 = None \<and> ID record410 \<noteq> [] \<and>
   loadReleaseForSync (exampleEnv (Some (release410 ''local'')) None)
     (ImageStreamNamespace record410) (ImageStreamName record410) = Ok (Some (release410 ''local''), None) \<and>
   signatures (world410 []) (ID record410) = None \<and>
   cliImageForAudit (exampleController []) = [] \<and>
   OverrideCLIImage (Config (release410 ''local'')) = ''local'' \<and>
   newEvents (world410 [])
     (fst (syncAuditTag examplePkg (exampleController [])
        (exampleEnv (Some (release410 ''local'')) None) ''4.10.0'' (world410 []))) =
     [LoadReleaseForSync ''ocp'' ''4.10-stable'', HasSignature ''sha256:abcd'',
      ExecOcVerify ''registry.example/repo@sha256:abcd'',
      Sign ''sha256:abcd'' ''registry.example/repo@sha256:abcd'',
      PutSignature ''sha256:abcd'' ''signature'']"
  using C10_override_selects_local [of "world410 []" "''4.10.0''" record410
      "exampleEnv (Some (release410 ''local'')) None" "release410 ''local''"
      "exampleController []" examplePkg]
  by (simp add: example_defs reconcile_defs)

text \<open>
  C9 at the scenario's tag with a pinned image: without override the created job's container
  has the empty image, and with an override it has the override, not the pinned image.
\<close>

theorem C9_job_cli_image_witness:
  "records (world410 []) ''4.10.0'' = Some record410 \<and>
   Failure record410 = None \<and> ID record410 \<noteq> [] \<and>
   loadReleaseForSync (exampleEnv (Some (release410 [])) None)
     (ImageStreamNamespace record410) (ImageStreamName record410) = Ok (Some (release410 []), None) \<and>
   signatures (world410 []) (ID record410) = None \<and>
   cliImageForAudit (exampleController ''registry.example/cli:pinned'') = ''registry.example/cli:pinned'' \<and>
   OverrideCLIImage (Config (release410 [])) = [] \<and>
   listJobsError (exampleEnv (Some (release410 [])) None) = None \<and>
   unfinishedAuditJobs examplePkg (jobs (world410 [])) = 0 \<and>
   find (\<lambda>job. job_Name job = auditVerifyJobName (ID record410)) (jobs (world410 [])) = None \<and>
   take 5 (newEvents (world410 [])
     (fst (syncAuditTag examplePkg (exampleController ''registry.example/cli:pinned'')
        (exampleEnv (Some (release410 [])) None) ''4.10.0'' (world410 [])))) =
     [LoadReleaseForSync ''ocp'' ''4.10-stable'', HasSignature ''sha256:abcd'', ListJobs,
      EnsureJob ''verify-abcd'', NewReleaseJobBase ''verify-abcd'' [] ''pull-secret''] \<and>
   map (\<lambda>job. (job_Name job, map c_Name (job_Containers job), map c_Image (job_Containers job)))
     (jobs (fst (syncAuditTag examplePkg (exampleController ''registry.example/cli:pinned'')
        (exampleEnv (Some (release410 [])) None) ''4.10.0'' (world410 [])))) =
     [(''verify-abcd'', [''verify''], [[]])] \<and>
   OverrideCLIImage (Config (release410 ''registry.example/cli:override'')) = ''registry.example/cli:override'' \<and>
   newReleaseJobBase examplePkg (auditVerifyJobName (ID record410))
     (OverrideCLIImage (Config (release410 ''registry.example/cli:override'')))
     (PullSecretName (Config (release410 ''registry.example/cli:override''))) =
     (\<lparr>job_Name = ''verify-abcd'', job_Labels = None, job_Annotations = Some Map.empty,
       job_Containers = [\<lparr>c_Name = ''build'', c_Image = ''registry.example/cli:override'', c_Command = []\<rparr>],
       job_CompletionTime = None, job_Active = 0\<rparr>, ''set -e'') \<and>
   take 5 (newEvents (world410 [])
     (fst (syncAuditTag examplePkg (exampleController ''registry.example/cli:pinned'')
        (exampleEnv (Some (release410 ''registry.example/cli:override'')) None) ''4.10.0'' (world410 [])))) =
     [LoadReleaseForSync ''ocp'' ''4.10-stable'', HasSignature ''sha256:abcd'', ListJobs,
      EnsureJob ''verify-abcd'',
      NewReleaseJobBase ''verify-abcd'' ''registry.example/cli:override'' ''pull-secret''] \<and>
   map (\<lambda>job. (job_Name job, map c_Name (job_Containers job), map c_Image (job_Containers job)))
     (jobs (fst (syncAuditTag examplePkg (exampleController ''registry.example/cli:pinned'')
        (exampleEnv (Some (release410 ''registry.example/cli:override'')) None) ''4.10.0'' (world410 [])))) =
     [(''verify-abcd'', [''verify''], [''registry.example/cli:override''])]"
proof -
  let ?c = "exampleController ''registry.example/cli:pinned''"
  let ?ov = "''registry.example/cli:override''"
  let ?ctr = "\<lparr>c_Name = ''build'', c_Image = ?ov, c_Command = []\<rparr>"
  let ?base = "\<lparr>job_Name = ''verify-abcd'', job_Labels = None, job_Annotations = Some Map.empty,
       job_Containers = [?ctr], job_CompletionTime = None, job_Active = 0\<rparr>"
  have ready: "records (world410 []) ''4.10.0'' = Some record410" "Failure record410 = None"
    "ID record410 \<noteq> []" "signatures (world410 []) (ID record410) = None"
    by (simp_all add: example_defs)
  have load: "loadReleaseForSync (exampleEnv (Some (release410 ov)) None)
     (ImageStreamNamespace record410) (ImageStreamName record410) = Ok (Some (release410 ov), None)" for ov
    by (simp add: example_defs)
  have base: "newReleaseJobBase examplePkg (auditVerifyJobName (ID record410))
     (OverrideCLIImage (Config (release410 ?ov))) (PullSecretName (Config (release410 ?ov))) =
     (?base, ''set -e'')"
    by (simp add: example_defs auditVerifyJobName_def SplitN2_def ReplaceColons_def)
  have cond: "cliImageForAudit ?c = ''registry.example/cli:pinned''"
    "listJobsError (exampleEnv (Some (release410 ov)) None) = None"
    "unfinishedAuditJobs examplePkg (jobs (world410 [])) = 0"
    "find (\<lambda>job. job_Name job = auditVerifyJobName (ID record410)) (jobs (world410 [])) = None"
    "createJobError (exampleEnv (Some (release410 ov)) None) job = None" for ov job
    by (simp_all add: example_defs unfinishedAuditJobs_def)
  note plain = C9_job_cli_image [OF ready(1-3) load [of "[]"] ready(4), of examplePkg ?c]
  note over = C9_job_cli_image [OF ready(1-3) load [of ?ov] ready(4),
      of examplePkg ?c ?base "''set -e''" ?ctr "[]" Map.empty]
  from over base cond
  have "jobs (fst (syncAuditTag examplePkg ?c (exampleEnv (Some (release410 ?ov)) None) ''4.10.0''
          (world410 []))) =
        jobs (world410 []) @
        [?base\<lparr>job_Containers :=
             [?ctr\<lparr>c_Name := ''verify'',
                 c_Command := [''/bin/bash'', ''-c'', ''set -e'' @ verifyScript, [], Location record410]\<rparr>],
           job_Labels := Some ((case job_Labels ?base of None \<Rightarrow> Map.empty | Some l \<Rightarrow> l)
                                 (releaseAnnotationJobPurpose examplePkg \<mapsto> ''audit'')),
           job_Annotations := Some (Map.empty
                        (releaseAnnotationSource examplePkg \<mapsto>
                           is_Namespace (Source (release410 ?ov)) @ ''/'' @ is_Name (Source (release410 ?ov)),
                         releaseAnnotationTarget examplePkg \<mapsto>
                           is_Namespace (Target (release410 ?ov)) @ ''/'' @ is_Name (Target (release410 ?ov)),
                         releaseAnnotationReleaseTag examplePkg \<mapsto> Name record410,
                         releaseAnnotationJobPurpose examplePkg \<mapsto> ''audit''))\<rparr>]"
    by (simp add: example_defs)
  then have created: "map (\<lambda>job. (job_Name job, map c_Name (job_Containers job), map c_Image (job_Containers job)))
     (jobs (fst (syncAuditTag examplePkg ?c (exampleEnv (Some (release410 ?ov)) None) ''4.10.0''
        (world410 [])))) = [(''verify-abcd'', [''verify''], [?ov])]"
    by (simp add: example_defs)
  show ?thesis
    using plain ready load [of "[]"] base created
    by (simp add: example_defs reconcile_defs)
qed



text \<open>
  C5: for a tracked record (stored under its own name, as \<^verbatim>\<open>Sync\<close> stores every record)
  with no failure and an empty digest, the reconciliation of its tag sets the failure to
  \<^verbatim>\<open>VerificationFailed\<close> with the no-digest message, refreshes \<^verbatim>\<open>At\<close>, returns nil, and
  makes no call: the state differs in that record only.
\<close>

theorem C5_no_digest_fails_at_once:
  assumes "records w n = Some r" and "Failure r = None" and "ID r = []" and "Name r = n"
  shows "syncAuditTag p c env n w =
           (w\<lparr>records := (records w)(n \<mapsto> r\<lparr>At := timeNow env,
                 Failure := Some \<lparr>Reason = ''VerificationFailed'',
                   Message = ''Release '' @ n @ '' has no digest and cannot be verified''\<rparr>\<rparr>)\<rparr>,
            Ok None) \<and>
         newEvents w (fst (syncAuditTag p c env n w)) = []"
  using assms by (simp add: syncAuditTag_def AuditStore_HasSignature_def Get_def SetFailure_def Let_def newEvents_def)

text \<open>C5 at a record of the tag \<^verbatim>\<open>4.10.0\<close> with an empty digest.\<close>

theorem C5_no_digest_fails_at_once_witness:
  "records (exampleWorld [''4.10.0'' \<mapsto> exampleRecord ''4.10.0'' [] ''4.10-stable'' None] []) ''4.10.0''
     = Some (exampleRecord ''4.10.0'' [] ''4.10-stable'' None) \<and>
   Failure (exampleRecord ''4.10.0'' [] ''4.10-stable'' None) = None \<and>
   ID (exampleRecord ''4.10.0'' [] ''4.10-stable'' None) = [] \<and>
   Name (exampleRecord ''4.10.0'' [] ''4.10-stable'' None) = ''4.10.0'' \<and>
   snd (syncAuditTag examplePkg (exampleController ''local'') (exampleEnv None None) ''4.10.0''
          (exampleWorld [''4.10.0'' \<mapsto> exampleRecord ''4.10.0'' [] ''4.10-stable'' None] [])) = Ok None \<and>
   trace (fst (syncAuditTag examplePkg (exampleController ''local'') (exampleEnv None None) ''4.10.0''
          (exampleWorld [''4.10.0'' \<mapsto> exampleRecord ''4.10.0'' [] ''4.10-stable'' None] []))) = [] \<and>
   map_option Failure
     (records (fst (syncAuditTag examplePkg (exampleController ''local'') (exampleEnv None None) ''4.10.0''
          (exampleWorld [''4.10.0'' \<mapsto> exampleRecord ''4.10.0'' [] ''4.10-stable'' None] []))) ''4.10.0'') =
     Some (Some \<lparr>Reason = ''VerificationFailed'',
       Message = ''Release 4.10.0 has no digest and cannot be verified''\<rparr>)"
  using C5_no_digest_fails_at_once [of
      "exampleWorld [''4.10.0'' \<mapsto> exampleRecord ''4.10.0'' [] ''4.10-stable'' None] []" "''4.10.0''"
      "exampleRecord ''4.10.0'' [] ''4.10-stable'' None" examplePkg "exampleController ''local''"
      "exampleEnv None None"]
  by (simp add: example_defs)

lemma keyedByName_new: "keyedByName NewAuditTracker"
  by (simp add: keyedByName_def NewAuditTracker_def)

lemma keyedByName_SetFailure: "keyedByName m \<Longrightarrow> keyedByName (SetFailure now name message m)"
  by (auto simp: keyedByName_def SetFailure_def split: option.splits if_splits)

lemma keyedByName_syncTag:
  "keyedByName (recs st) \<Longrightarrow> keyedByName (recs (syncTag p release now later tag st))"
  by (auto simp: keyedByName_def syncTag_def Let_def split: option.splits if_splits)

lemma keyedByName_syncTags:
  "keyedByName (recs st) \<Longrightarrow> keyedByName (recs (syncTags p release now later i tags st))"
  by (induction tags arbitrary: i st) (simp_all add: keyedByName_syncTag)

lemma keyedByName_Sync: "keyedByName m \<Longrightarrow> keyedByName (fst (Sync p release now later m))"
proof -
  assume k: "keyedByName m"
  have "keyedByName (removeOldTags nm fnd m')" if "keyedByName m'" for nm fnd m'
    using that by (auto simp: keyedByName_def removeOldTags_def split: option.splits if_splits)
  moreover have "keyedByName (recs (syncTags p release now later 0 (is_Tags (Target release))
      \<lparr>recs = m, found = {}, queued = []\<rparr>))"
    using k by (intro keyedByName_syncTags) simp
  ultimately show ?thesis using k by (simp add: Sync_def Let_def)
qed


lemma syncAuditTag_extends:
  "\<exists>evs. trace (fst (syncAuditTag p c env n w)) = trace w @ evs"
proof (cases "records w n")
  case None
  then show ?thesis by (simp add: syncAuditTag_def AuditStore_HasSignature_def Get_def)
next
  case (Some r)
  show ?thesis
  proof (cases "Failure r \<noteq> None \<or> length (ID r) = 0")
    case True
    with Some show ?thesis by (auto simp: syncAuditTag_def AuditStore_HasSignature_def Get_def Let_def)
  next
    case False
    show ?thesis
    proof (cases "loadReleaseForSync env (ImageStreamNamespace r) (ImageStreamName r)")
      case (Panic v)
      with Some False show ?thesis by (simp add: syncAuditTag_def AuditStore_HasSignature_def Get_def Let_def emit_def)
    next
      case (Ok pr)
      obtain rel err where pr: "pr = (rel, err)" by (cases pr)
      show ?thesis
      proof (cases "\<exists>release. rel = Some release \<and> err = None")
        case nok: False
        with Some False Ok pr show ?thesis
          by (auto simp: syncAuditTag_def AuditStore_HasSignature_def Get_def Let_def emit_def split: option.splits)
      next
        case True
        then obtain release where rel: "rel = Some release" "err = None" by blast
        show ?thesis
        proof (cases "signatures w (ID r) \<noteq> None")
          case True
          with Some False Ok pr rel show ?thesis
            by (auto simp: syncAuditTag_def AuditStore_HasSignature_def Get_def Let_def emit_def)
        next
          case unsigned: False
          define w2 where "w2 = emit (HasSignature (ID r))
            (emit (LoadReleaseForSync (ImageStreamNamespace r) (ImageStreamName r)) w)"
          have step: "syncAuditTag p c env n w = verifyAndSign p c env n release r w2"
            using syncAuditTag_ready [of w n r env release p c] Some False Ok pr rel unsigned
            by (simp add: w2_def)
          obtain w' res where v: "verifyAndSign p c env n release r w2 = (w', res)" by force
          from verifyAndSign_calls [OF v]
          have "trace w' = trace w2 @ newEvents w2 w'" by (simp add: callsOnly_def)
          moreover have "trace w2 = trace w @
              [LoadReleaseForSync (ImageStreamNamespace r) (ImageStreamName r), HasSignature (ID r)]"
            by (simp add: w2_def emit_def)
          ultimately have "trace w' = trace w @
              ([LoadReleaseForSync (ImageStreamNamespace r) (ImageStreamName r), HasSignature (ID r)]
               @ newEvents w2 w')"
            by simp
          then show ?thesis unfolding step v fst_conv by (rule exI)
        qed
      qed
    qed
  qed
qed

lemma syncAuditBody_extends:
  "\<exists>evs. trace (fst (syncAuditBody p env key w)) = trace w @ evs"
  by (auto simp: syncAuditBody_def Let_def emit_def split: result.splits prod.splits option.splits)

lemma run_extends: "\<exists>evs. trace (run p steps w) = trace w @ evs"
proof (induction steps arbitrary: w)
  case Nil
  then show ?case by simp
next
  case (Cons step steps)
  show ?case
  proof (cases step)
    case (ReconcileTag c env name)
    obtain e1 where "trace (fst (syncAuditTag p c env name w)) = trace w @ e1"
      using syncAuditTag_extends by blast
    moreover obtain e2 where "trace (run p steps (fst (syncAuditTag p c env name w))) =
        trace (fst (syncAuditTag p c env name w)) @ e2"
      using Cons.IH by blast
    ultimately show ?thesis by (simp add: ReconcileTag)
  next
    case (SyncRelease env key)
    obtain e1 where "trace (fst (syncAuditBody p env key w)) = trace w @ e1"
      using syncAuditBody_extends by blast
    moreover obtain e2 where "trace (run p steps (fst (syncAuditBody p env key w))) =
        trace (fst (syncAuditBody p env key w)) @ e2"
      using Cons.IH by blast
    ultimately show ?thesis by (simp add: SyncRelease)
  qed
qed

lemma syncAuditTag_already_signed:
  assumes "records w n = Some r" and "signatures w (ID r) \<noteq> None"
  shows "set (newEvents w (fst (syncAuditTag p c env n w))) \<subseteq>
           {LoadReleaseForSync (ImageStreamNamespace r) (ImageStreamName r), HasSignature (ID r)} \<and>
         jobs (fst (syncAuditTag p c env n w)) = jobs w \<and>
         signatures (fst (syncAuditTag p c env n w)) = signatures w"
  using assms
  by (auto simp: syncAuditTag_def AuditStore_HasSignature_def Get_def Let_def emit_def newEvents_def
      split: result.splits prod.splits option.splits)

lemma verifyAndSign_decompose:
  assumes v: "verifyAndSign p c env n release r w = (w', res)"
  shows "(callsOnly (verificationCall n release r) w w' \<and> signatures w' = signatures w) \<or>
         (\<exists>w1. callsOnly (verificationCall n release r) w w1 \<and> signatures w1 = signatures w \<and>
               signAndUpload c env r w1 = (w', res))"
proof -
  define img where "img = (if length (cliImageForAudit c) = 0 then OverrideCLIImage (Config release)
                 else cliImageForAudit c)"
  show ?thesis
  proof (cases "img = []")
    case True
    with v show ?thesis by (simp add: verifyAndSign_def Let_def img_def callsOnly_refl)
  next
    case False
    obtain w1 r1 where b: "(if img = ''local'' then verifyLocal p env r w
                  else verifyClusterJob p env n release r w) = (w1, r1)"
      by force
    have c1: "callsOnly (verificationCall n release r) w w1 \<and> signatures w1 = signatures w"
    proof (cases "img = ''local''")
      case True
      with b have "verifyLocal p env r w = (w1, r1)" by simp
      from verifyLocal_calls [OF this, of n release]
      show ?thesis
        using callsOnly_trans [OF callsOnly_emit, of "verificationCall n release r"
          "ExecOcVerify (Location r)" w w1]
        by simp
    next
      case False
      with b have "verifyClusterJob p env n release r w = (w1, r1)" by simp
      from verifyClusterJob_calls [OF this]
      show ?thesis
        using callsOnly_trans [OF callsOnly_emit, of "verificationCall n release r" ListJobs w w1]
        by simp
    qed
    have step: "verifyAndSign p c env n release r w =
        (case r1 of Some res \<Rightarrow> (w1, res) | None \<Rightarrow> signAndUpload c env r w1)"
      using False b by (simp add: verifyAndSign_def Let_def img_def)
    show ?thesis
    proof (cases r1)
      case (Some x)
      with v step c1 show ?thesis by simp
    next
      case None
      with v step c1 show ?thesis by auto
    qed
  qed
qed

lemma verificationCall_not_PutSignature:
  "list_all (verificationCall n release r) evs \<Longrightarrow> PutSignature d sig \<notin> set evs"
  by (auto simp: list_all_iff)

lemma signAndUpload_put:
  assumes "signAndUpload c env r w = (w', Ok None)"
    and "PutSignature d sig \<in> set (newEvents w w')"
  shows "d = ID r \<and> signatures w' d \<noteq> None \<and>
         trace w' = trace w @ [Sign d (Location r), PutSignature d sig]"
  using assms
  by (auto simp: signAndUpload_def AuditStore_PutSignature_def Let_def emit_def newEvents_def split: option.splits prod.splits)

lemma syncAuditTag_put:
  assumes r: "records w n = Some r"
    and s: "syncAuditTag p c env n w = (w', Ok None)"
    and put: "PutSignature d sig \<in> set (newEvents w w')"
  shows "d = ID r \<and> signatures w' d \<noteq> None \<and>
         filter (signingOf d) (newEvents w w') = [Sign d (Location r), PutSignature d sig]"
proof -
  have ready: "Failure r = None \<and> ID r \<noteq> [] \<and> signatures w (ID r) = None \<and>
      (\<exists>release. loadReleaseForSync env (ImageStreamNamespace r) (ImageStreamName r)
         = Ok (Some release, None))"
  proof (rule ccontr)
    assume "\<not> ?thesis"
    with r s have "set (newEvents w w') \<subseteq>
        {LoadReleaseForSync (ImageStreamNamespace r) (ImageStreamName r), HasSignature (ID r)}"
      by (auto simp: syncAuditTag_def AuditStore_HasSignature_def Get_def Let_def emit_def newEvents_def
          split: result.splits prod.splits option.splits if_splits)
    with put show False by auto
  qed
  then obtain release where l: "loadReleaseForSync env (ImageStreamNamespace r) (ImageStreamName r)
         = Ok (Some release, None)" by blast
  define w2 where "w2 = emit (HasSignature (ID r))
            (emit (LoadReleaseForSync (ImageStreamNamespace r) (ImageStreamName r)) w)"
  have t2: "trace w2 = trace w @
      [LoadReleaseForSync (ImageStreamNamespace r) (ImageStreamName r), HasSignature (ID r)]"
    by (simp add: w2_def emit_def)
  have v: "verifyAndSign p c env n release r w2 = (w', Ok None)"
    using syncAuditTag_ready [of w n r env release p c] r ready l s by (simp add: w2_def)
  from verifyAndSign_decompose [OF v]
  show ?thesis
  proof
    assume "callsOnly (verificationCall n release r) w2 w' \<and> signatures w' = signatures w2"
    then have c: "callsOnly (verificationCall n release r) w2 w'" by simp
    from newEvents_after [OF t2 c] put verificationCall_not_PutSignature
    show ?thesis by fastforce
  next
    assume "\<exists>w1. callsOnly (verificationCall n release r) w2 w1 \<and> signatures w1 = signatures w2 \<and>
               signAndUpload c env r w1 = (w', Ok None)"
    then obtain w1 where c1: "callsOnly (verificationCall n release r) w2 w1"
      and su: "signAndUpload c env r w1 = (w', Ok None)" by blast
    from signAndUpload_calls [OF su] have c2: "callsOnly (signingCall r) w1 w'" by simp
    from newEvents_after [OF t2 c1]
    have n1: "newEvents w w1 = [LoadReleaseForSync (ImageStreamNamespace r) (ImageStreamName r),
        HasSignature (ID r)] @ newEvents w2 w1"
      and v1: "list_all (verificationCall n release r) (newEvents w2 w1)" by simp_all
    have t1: "trace w1 = trace w @ newEvents w w1"
      using c1 t2 n1 by (simp add: callsOnly_def)
    from newEvents_after(1) [OF t1 c2]
    have n: "newEvents w w' = newEvents w w1 @ newEvents w1 w'" .
    have "PutSignature d sig \<notin> set (newEvents w w1)"
      using n1 verificationCall_not_PutSignature [OF v1] by auto
    with put n have p1: "PutSignature d sig \<in> set (newEvents w1 w')" by auto
    from signAndUpload_put [OF su p1]
    have d: "d = ID r" and sg: "signatures w' d \<noteq> None"
      and t: "trace w' = trace w1 @ [Sign d (Location r), PutSignature d sig]" by blast+
    from t have n2: "newEvents w1 w' = [Sign d (Location r), PutSignature d sig]"
      by (rule newEvents_append)
    have "filter (signingOf d) (newEvents w2 w1) = []"
      using v1 verificationCall_not_signing [of n release r _ d]
      by (auto simp: list_all_iff filter_empty_conv)
    then have "filter (signingOf d) (newEvents w w') = [Sign d (Location r), PutSignature d sig]"
      by (simp add: n n1 n2)
    with d sg show ?thesis by simp
  qed
qed

text \<open>
  C1: when the store holds a signature for the digest of a tag's record, a reconciliation of
  the tag makes no call but the release load and the signature query, and leaves the jobs and
  the store as they are. Once the store holds a signature for a digest \<open>d\<close>, no run of
  reconciliations and tracker syncs signs or uploads for \<open>d\<close> again, and the store keeps
  holding it. Hence from a reconciliation that uploads a signature for \<open>d\<close> and returns nil
  on, through any run that follows, \<^verbatim>\<open>Sign\<close> and \<^verbatim>\<open>PutSignature\<close> are each called exactly
  once for \<open>d\<close>.
\<close>

theorem C1_at_most_once_signing:
  "(records w n = Some r \<and> AuditStore_HasSignature w (ID r) \<longrightarrow>
      set (newEvents w (fst (syncAuditTag p c env n w))) \<subseteq>
        {LoadReleaseForSync (ImageStreamNamespace r) (ImageStreamName r), HasSignature (ID r)} \<and>
      jobs (fst (syncAuditTag p c env n w)) = jobs w \<and>
      signatures (fst (syncAuditTag p c env n w)) = signatures w) \<and>
   (AuditStore_HasSignature w d \<longrightarrow>
      filter (signingOf d) (trace (run p steps w)) = filter (signingOf d) (trace w) \<and>
      AuditStore_HasSignature (run p steps w) d) \<and>
   (records w n = Some r \<and> syncAuditTag p c env n w = (w', Ok None) \<and>
    PutSignature d sig \<in> set (newEvents w w') \<longrightarrow>
      d = ID r \<and> AuditStore_HasSignature w' d \<and>
      filter (signingOf d) (newEvents w (run p steps w')) =
        [Sign d (Location r), PutSignature d sig])"
proof -
  have third: "d = ID r \<and> signatures w' d \<noteq> None \<and>
      filter (signingOf d) (newEvents w (run p steps w')) = [Sign d (Location r), PutSignature d sig]"
    if r: "records w n = Some r" and s: "syncAuditTag p c env n w = (w', Ok None)"
      and put: "PutSignature d sig \<in> set (newEvents w w')"
  proof -
    from syncAuditTag_put [OF r s put]
    have d: "d = ID r" and sg: "signatures w' d \<noteq> None"
      and f: "filter (signingOf d) (newEvents w w') = [Sign d (Location r), PutSignature d sig]"
      by blast+
    obtain e1 where e1: "trace w' = trace w @ e1"
      using syncAuditTag_extends [of p c env n w] s by auto
    obtain e2 where e2: "trace (run p steps w') = trace w' @ e2" using run_extends by blast
    from run_signed [OF sg, of p steps]
    have "filter (signingOf d) (trace (run p steps w')) = filter (signingOf d) (trace w')"
      by simp
    with e2 have "filter (signingOf d) e2 = []" by simp
    moreover have "newEvents w (run p steps w') = newEvents w w' @ e2"
      using e1 e2 by (simp add: newEvents_def)
    ultimately show ?thesis using d sg f by simp
  qed
  show ?thesis
    unfolding AuditStore_HasSignature_def
    using syncAuditTag_already_signed [of w n r p c env] run_signed [of w d p steps] third
    by blast
qed


text \<open>
  C1 at the scenario's tag: the first reconciliation signs and uploads, the next ones only load
  the release and query the store.
\<close>

theorem C1_at_most_once_signing_witness:
  "records (world410 []) ''4.10.0'' = Some record410 \<and>
   syncAuditTag examplePkg (exampleController ''local'') (exampleEnv (Some (release410 [])) None)
     ''4.10.0'' (world410 []) = (signed410, Ok None) \<and>
   PutSignature ''sha256:abcd'' ''signature'' \<in> set (newEvents (world410 []) signed410) \<and>
   records signed410 ''4.10.0'' = Some record410 \<and>
   AuditStore_HasSignature signed410 (ID record410) \<and>
   newEvents signed410
     (fst (syncAuditTag examplePkg (exampleController ''local'') (exampleEnv (Some (release410 [])) None)
        ''4.10.0'' signed410)) =
     [LoadReleaseForSync ''ocp'' ''4.10-stable'', HasSignature ''sha256:abcd''] \<and>
   filter (signingOf ''sha256:abcd'')
     (newEvents (world410 [])
        (run examplePkg
           [ReconcileTag (exampleController ''local'') (exampleEnv (Some (release410 [])) None) ''4.10.0'',
            ReconcileTag (exampleController ''registry.example/cli:pinned'')
              (exampleEnv (Some (release410 [])) None) ''4.10.0'']
           signed410)) =
     [Sign ''sha256:abcd'' ''registry.example/repo@sha256:abcd'',
      PutSignature ''sha256:abcd'' ''signature'']"
proof -
  have s: "syncAuditTag examplePkg (exampleController ''local'') (exampleEnv (Some (release410 [])) None)
     ''4.10.0'' (world410 []) = (signed410, Ok None)"
    unfolding signed410_def by (simp add: example_defs reconcile_defs)
  have signed: "signed410 = \<lparr>records = [''4.10.0'' \<mapsto> record410], jobs = [],
      signatures = [''sha256:abcd'' \<mapsto> ''signature''],
      trace = [LoadReleaseForSync ''ocp'' ''4.10-stable'', HasSignature ''sha256:abcd'',
               ExecOcVerify ''registry.example/repo@sha256:abcd'',
               Sign ''sha256:abcd'' ''registry.example/repo@sha256:abcd'',
               PutSignature ''sha256:abcd'' ''signature'']\<rparr>"
    unfolding signed410_def by (simp add: example_defs reconcile_defs)
  have r: "records (world410 []) ''4.10.0'' = Some record410"
    by (simp add: example_defs)
  have put: "PutSignature ''sha256:abcd'' ''signature'' \<in> set (newEvents (world410 []) signed410)"
    by (simp add: signed newEvents_def example_defs)
  have r1: "records signed410 ''4.10.0'' = Some record410" by (simp add: signed)
  have held: "AuditStore_HasSignature signed410 (ID record410)"
    by (simp add: signed example_defs AuditStore_HasSignature_def)
  have again: "newEvents signed410
     (fst (syncAuditTag examplePkg (exampleController ''local'') (exampleEnv (Some (release410 [])) None)
        ''4.10.0'' signed410)) =
     [LoadReleaseForSync ''ocp'' ''4.10-stable'', HasSignature ''sha256:abcd'']"
    by (simp add: signed example_defs reconcile_defs)
  from C1_at_most_once_signing [of "world410 []" "''4.10.0''" record410 examplePkg
      "exampleController ''local''" "exampleEnv (Some (release410 [])) None" "''sha256:abcd''"
      "[ReconcileTag (exampleController ''local'') (exampleEnv (Some (release410 [])) None) ''4.10.0'',
        ReconcileTag (exampleController ''registry.example/cli:pinned'')
              (exampleEnv (Some (release410 [])) None) ''4.10.0'']"
      signed410 "''signature''"] r s put
  have "filter (signingOf ''sha256:abcd'')
     (newEvents (world410 [])
        (run examplePkg
           [ReconcileTag (exampleController ''local'') (exampleEnv (Some (release410 [])) None) ''4.10.0'',
            ReconcileTag (exampleController ''registry.example/cli:pinned'')
              (exampleEnv (Some (release410 [])) None) ''4.10.0'']
           signed410)) =
     [Sign ''sha256:abcd'' (Location record410), PutSignature ''sha256:abcd'' ''signature'']"
    by blast
  then show ?thesis using r s put r1 held again by (simp add: example_defs)
qed

text \<open>
  C3: while the failure of a record is set, a reconciliation of its tag returns nil and changes
  nothing. A \<^verbatim>\<open>Sync\<close> of a stable release that lists the tag once as a recognized tag clears
  the failure and sets \<^verbatim>\<open>At\<close> to its start time exactly when the clock, read in the tag's
  iteration, is more than 12 hours past \<^verbatim>\<open>At\<close>; otherwise the record stays as it is. The
  tag is enqueued exactly when the cooldown has passed or the location or the digest differ
  from the image stream's, so a drift alone enqueues the tag and keeps the failure.
\<close>

theorem C3_sticky_failure:
  assumes "records w n = Some r" and "Failure r \<noteq> None"
    and "cfg_As (Config release) = releaseConfigModeStable p"
    and "is_Tags (Target release) = pre @ tag # post"
    and "tag_Name tag = n" and "recognizedTag p tag"
    and "n \<notin> tag_Name ` (set pre \<union> set post)"
  shows "syncAuditTag p c env n w = (w, Ok None) \<and>
         fst (Sync p release now later (records w)) n =
           Some (if later (length pre) - At r > 12 * Hour
                 then r\<lparr>At := now, Failure := None\<rparr> else r) \<and>
         (n \<in> set (snd (Sync p release now later (records w))) \<longleftrightarrow>
            later (length pre) - At r > 12 * Hour
            \<or> Location r \<noteq> findPublicImagePullSpec p (Target release) n
            \<or> ID r \<noteq> findImageIDForTag p (Target release) n)"
  using syncAuditTag_failed [OF assms(1,2), of p c env]
    Sync_tag_once [of "records w" n r release p pre tag post now later] assms
  by simp

text \<open>
  C3 at a failed record whose digest has drifted: nothing is reconciled, after 11 hours the
  tag is enqueued and the failure kept, after 13 hours the failure is cleared.
\<close>

theorem C3_sticky_failure_witness:
  "syncAuditTag examplePkg (exampleController ''local'') (exampleEnv (Some (release410 [])) None) ''4.10.0''
     (exampleWorld [''4.10.0'' \<mapsto> exampleRecord ''4.10.0'' ''sha256:old'' ''4.10-stable'' (Some exampleFailure)] [])
     = (exampleWorld [''4.10.0'' \<mapsto> exampleRecord ''4.10.0'' ''sha256:old'' ''4.10-stable'' (Some exampleFailure)] [],
        Ok None) \<and>
   Sync examplePkg (release410 []) (11 * Hour) (\<lambda>i. 11 * Hour)
     [''4.10.0'' \<mapsto> exampleRecord ''4.10.0'' ''sha256:old'' ''4.10-stable'' (Some exampleFailure)] =
     ([''4.10.0'' \<mapsto> exampleRecord ''4.10.0'' ''sha256:old'' ''4.10-stable'' (Some exampleFailure)],
      [''4.10.0'']) \<and>
   fst (Sync examplePkg (release410 []) (13 * Hour) (\<lambda>i. 13 * Hour)
     [''4.10.0'' \<mapsto> exampleRecord ''4.10.0'' ''sha256:old'' ''4.10-stable'' (Some exampleFailure)]) ''4.10.0'' =
     Some ((exampleRecord ''4.10.0'' ''sha256:old'' ''4.10-stable'' None)\<lparr>At := 13 * Hour\<rparr>)"
proof -
  let ?r = "exampleRecord ''4.10.0'' ''sha256:old'' ''4.10-stable'' (Some exampleFailure)"
  let ?w = "exampleWorld [''4.10.0'' \<mapsto> ?r] []"
  have h: "records ?w ''4.10.0'' = Some ?r" "Failure ?r \<noteq> None"
    "cfg_As (Config (release410 [])) = releaseConfigModeStable examplePkg"
    "is_Tags (Target (release410 [])) = [] @ exampleTag ''4.10.0'' # []"
    "tag_Name (exampleTag ''4.10.0'') = ''4.10.0''" "recognizedTag examplePkg (exampleTag ''4.10.0'')"
    "''4.10.0'' \<notin> tag_Name ` (set [] \<union> set [])"
    by (simp_all add: example_defs recognizedTag_def)
  have m: "Sync examplePkg (release410 []) (11 * Hour) (\<lambda>i. 11 * Hour) [''4.10.0'' \<mapsto> ?r] =
     ([''4.10.0'' \<mapsto> ?r], [''4.10.0''])"
    by (simp add: example_defs sync_defs fun_eq_iff)
  from C3_sticky_failure [OF h, of "exampleController ''local''" "exampleEnv (Some (release410 [])) None"
      "13 * Hour" "\<lambda>i. 13 * Hour"]
  show ?thesis using m by (simp add: example_defs Hour_def Second_def)
qed

text \<open>
  C6 (the claim as stated fails): records are keyed by tag name alone. A record owned by
  \<^verbatim>\<open>4.11-stable\<close> whose tag name is also a recognized tag of \<^verbatim>\<open>4.10-stable\<close> is
  refreshed by a \<^verbatim>\<open>Sync\<close> of \<^verbatim>\<open>4.10-stable\<close> after the cooldown.
\<close>

theorem C6_other_release_record_changed_counterexample:
  "[''4.10.0'' \<mapsto> exampleRecord ''4.10.0'' ''sha256:abcd'' ''4.11-stable'' (Some exampleFailure)] ''4.10.0''
     = Some (exampleRecord ''4.10.0'' ''sha256:abcd'' ''4.11-stable'' (Some exampleFailure)) \<and>
   cfg_As (Config (release410 [])) = releaseConfigModeStable examplePkg \<and>
   Release (exampleRecord ''4.10.0'' ''sha256:abcd'' ''4.11-stable'' (Some exampleFailure))
     \<noteq> cfg_Name (Config (release410 [])) \<and>
   fst (Sync examplePkg (release410 []) (13 * Hour) (\<lambda>i. 13 * Hour)
      [''4.10.0'' \<mapsto> exampleRecord ''4.10.0'' ''sha256:abcd'' ''4.11-stable'' (Some exampleFailure)]) ''4.10.0''
     = Some ((exampleRecord ''4.10.0'' ''sha256:abcd'' ''4.11-stable'' None)\<lparr>At := 13 * Hour\<rparr>) \<and>
   fst (Sync examplePkg (release410 []) (13 * Hour) (\<lambda>i. 13 * Hour)
      [''4.10.0'' \<mapsto> exampleRecord ''4.10.0'' ''sha256:abcd'' ''4.11-stable'' (Some exampleFailure)]) ''4.10.0''
     \<noteq> Some (exampleRecord ''4.10.0'' ''sha256:abcd'' ''4.11-stable'' (Some exampleFailure))"
  by (simp add: example_defs sync_defs)

text \<open>
  C6 (amended): a \<^verbatim>\<open>Sync\<close> deletes a record exactly when the release is in stable mode, the
  record's owning release has the release's name and its tag name is not among the recognized
  tags of the call. A record owned by a different release is never deleted; it is unchanged, or
  its tag name is among the recognized tags of the call and it has \<^verbatim>\<open>At\<close> set to the
  call's start time and its failure cleared.
\<close>

theorem C6_gc_scope:
  assumes "m k = Some r"
  shows "(fst (Sync p release now later m) k = None \<longleftrightarrow>
            cfg_As (Config release) = releaseConfigModeStable p \<and>
            Release r = cfg_Name (Config release) \<and>
            k \<notin> tag_Name ` {t \<in> set (is_Tags (Target release)). recognizedTag p t}) \<and>
         (Release r \<noteq> cfg_Name (Config release) \<longrightarrow>
            fst (Sync p release now later m) k = Some r \<or>
            (k \<in> tag_Name ` {t \<in> set (is_Tags (Target release)). recognizedTag p t} \<and>
             fst (Sync p release now later m) k = Some (r\<lparr>At := now, Failure := None\<rparr>)))"
  using Sync_deleted [of m k r p release now later] Sync_stale [of m k r release p now later]
    Sync_other_release [of m k r release p now later] assms
  by blast

text \<open>C6 (amended) at two releases: the stale record of the synced release goes, the other release's record stays.\<close>

theorem C6_gc_scope_witness:
  "[''4.10.0'' \<mapsto> exampleRecord ''4.10.0'' ''sha256:abcd'' ''4.10-stable'' None,
    ''4.11.0'' \<mapsto> exampleRecord ''4.11.0'' ''sha256:abcd'' ''4.11-stable'' None] ''4.10.0''
     = Some (exampleRecord ''4.10.0'' ''sha256:abcd'' ''4.10-stable'' None) \<and>
   [''4.10.0'' \<mapsto> exampleRecord ''4.10.0'' ''sha256:abcd'' ''4.10-stable'' None,
    ''4.11.0'' \<mapsto> exampleRecord ''4.11.0'' ''sha256:abcd'' ''4.11-stable'' None] ''4.11.0''
     = Some (exampleRecord ''4.11.0'' ''sha256:abcd'' ''4.11-stable'' None) \<and>
   fst (Sync examplePkg (exampleRelease ''4.10-stable'' [] [''4.10.1'']) (13 * Hour) (\<lambda>i. 13 * Hour)
      [''4.10.0'' \<mapsto> exampleRecord ''4.10.0'' ''sha256:abcd'' ''4.10-stable'' None,
       ''4.11.0'' \<mapsto> exampleRecord ''4.11.0'' ''sha256:abcd'' ''4.11-stable'' None]) ''4.10.0'' = None \<and>
   fst (Sync examplePkg (exampleRelease ''4.10-stable'' [] [''4.10.1'']) (13 * Hour) (\<lambda>i. 13 * Hour)
      [''4.10.0'' \<mapsto> exampleRecord ''4.10.0'' ''sha256:abcd'' ''4.10-stable'' None,
       ''4.11.0'' \<mapsto> exampleRecord ''4.11.0'' ''sha256:abcd'' ''4.11-stable'' None]) ''4.11.0''
     = Some (exampleRecord ''4.11.0'' ''sha256:abcd'' ''4.11-stable'' None)"
proof -
  let ?m = "[''4.10.0'' \<mapsto> exampleRecord ''4.10.0'' ''sha256:abcd'' ''4.10-stable'' None,
       ''4.11.0'' \<mapsto> exampleRecord ''4.11.0'' ''sha256:abcd'' ''4.11-stable'' None]"
  let ?rel = "exampleRelease ''4.10-stable'' [] [''4.10.1'']"
  have own: "?m ''4.10.0'' = Some (exampleRecord ''4.10.0'' ''sha256:abcd'' ''4.10-stable'' None)"
    and other: "?m ''4.11.0'' = Some (exampleRecord ''4.11.0'' ''sha256:abcd'' ''4.11-stable'' None)"
    by simp_all
  have "recognizedTag examplePkg (exampleTag ''4.10.1'')"
    by (simp add: example_defs recognizedTag_def)
  then have "{t \<in> set (is_Tags (Target ?rel)). recognizedTag examplePkg t} = {exampleTag ''4.10.1''}"
    by (auto simp: exampleRelease_def)
  then have names: "tag_Name ` {t \<in> set (is_Tags (Target ?rel)). recognizedTag examplePkg t} = {''4.10.1''}"
    by (simp add: exampleTag_def)
  from C6_gc_scope [of ?m "''4.10.0''" "exampleRecord ''4.10.0'' ''sha256:abcd'' ''4.10-stable'' None"
      examplePkg ?rel "13 * Hour" "\<lambda>i. 13 * Hour"] own
  have gone: "fst (Sync examplePkg ?rel (13 * Hour) (\<lambda>i. 13 * Hour) ?m) ''4.10.0'' = None"
    unfolding names by (simp add: example_defs)
  from C6_gc_scope [of ?m "''4.11.0''" "exampleRecord ''4.11.0'' ''sha256:abcd'' ''4.11-stable'' None"
      examplePkg ?rel "13 * Hour" "\<lambda>i. 13 * Hour"] other
  have kept: "fst (Sync examplePkg ?rel (13 * Hour) (\<lambda>i. 13 * Hour) ?m) ''4.11.0''
     = Some (exampleRecord ''4.11.0'' ''sha256:abcd'' ''4.11-stable'' None)"
    unfolding names by (simp add: example_defs)
  show ?thesis using own other gone kept by blast
qed

text \<open>
  C2 (the code exceeds the limit): with 2 unfinished audit jobs and a listing that succeeds, the
  guard \<^verbatim>\<open>count > 2\<close> admits the tag, a third job is created, and 3 audit jobs are
  unfinished.
\<close>

theorem C2_third_job_admitted:
  "listJobsError (exampleEnv (Some (release410 [])) None) = None \<and>
   unfinishedAuditJobs examplePkg
     (jobs (world410 [exampleJob ''verify-1111'' None, exampleJob ''verify-2222'' None])) = 2 \<and>
   newEvents (world410 [exampleJob ''verify-1111'' None, exampleJob ''verify-2222'' None])
     (fst (syncAuditTag examplePkg (exampleController ''registry.example/cli:pinned'')
        (exampleEnv (Some (release410 [])) None) ''4.10.0''
        (world410 [exampleJob ''verify-1111'' None, exampleJob ''verify-2222'' None]))) =
     [LoadReleaseForSync ''ocp'' ''4.10-stable'', HasSignature ''sha256:abcd'', ListJobs,
      EnsureJob ''verify-abcd'', NewReleaseJobBase ''verify-abcd'' [] ''pull-secret'',
      CreateJob ''verify-abcd'', AddAfter ''4.10.0'' 10000000000] \<and>
   map job_Name (jobs (fst (syncAuditTag examplePkg (exampleController ''registry.example/cli:pinned'')
        (exampleEnv (Some (release410 [])) None) ''4.10.0''
        (world410 [exampleJob ''verify-1111'' None, exampleJob ''verify-2222'' None])))) =
     [''verify-1111'', ''verify-2222'', ''verify-abcd''] \<and>
   unfinishedAuditJobs examplePkg
     (jobs (fst (syncAuditTag examplePkg (exampleController ''registry.example/cli:pinned'')
        (exampleEnv (Some (release410 [])) None) ''4.10.0''
        (world410 [exampleJob ''verify-1111'' None, exampleJob ''verify-2222'' None])))) = 3"
  by (simp add: example_defs reconcile_defs)

lemma syncAudit_never_returns: "snd (syncAudit panicnil p env key w) \<noteq> Ok x"
  by (simp add: syncAudit_def go_panic_def Let_def split: prod.splits)

lemma syncAudit_repanics:
  "syncAuditBody p env key w = (w', Panic v) \<Longrightarrow> v \<noteq> NilValue \<Longrightarrow>
   syncAudit panicnil p env key w = (w', Panic v)"
  by (simp add: syncAudit_def go_panic_def recover_def)

text \<open>
  C4 (the code panics on every normal return): for a key whose release is not found the body
  returns nil, and \<^verbatim>\<open>syncAudit\<close> ends in a panic, with the nil value or with a
  \<^verbatim>\<open>PanicNilError\<close>.
\<close>

theorem C4_normal_return_becomes_panic:
  "syncAuditBody examplePkg (exampleEnv None None) (''ocp'', ''4.10-stable'') (world410 []) =
     (emit (LoadReleaseForSync ''ocp'' ''4.10-stable'') (world410 []), Ok None) \<and>
   syncAudit True examplePkg (exampleEnv None None) (''ocp'', ''4.10-stable'') (world410 []) =
     (emit (LoadReleaseForSync ''ocp'' ''4.10-stable'') (world410 []), Panic NilValue) \<and>
   syncAudit False examplePkg (exampleEnv None None) (''ocp'', ''4.10-stable'') (world410 []) =
     (emit (LoadReleaseForSync ''ocp'' ''4.10-stable'') (world410 []), Panic PanicNilError)"
  by (simp add: syncAudit_def syncAuditBody_def recover_def go_panic_def Let_def exampleEnv_def)

end
